theory Spec2Isabelle
  imports Complex_Main "HOL-Library.AList"
begin

section \<open>The store of enhanced-server.js\<close>

text \<open>
  The server keeps four global objects keyed by room id: \<open>rooms\<close>, \<open>videoStates\<close>,
  \<open>micStates\<close> and \<open>activeStreams\<close>. A JavaScript object used as a dictionary is an
  association list here (insertion ordered, at most one entry per key, kept so by
  \<open>AList.update\<close> and \<open>AList.delete\<close>), because the code enumerates them with
  \<open>Object.keys\<close>, \<open>Object.values\<close> and \<open>Object.entries\<close>.

  Modelling assumptions:
  \<^item> an association list holds the own properties of the object. The four objects
    are created with \<open>{}\<close>, so a read of a key that is a property name of
    \<open>Object.prototype\<close> (\<open>proto_key\<close> below) and has no own entry finds the
    inherited value, which is truthy and is neither an array, a Set nor a state. An
    upload creates a playback state under any room id, so the handler of
    \<open>GET /movie/:roomId\<close> is modelled at such keys too. A \<open>join\<close> to such a room
    throws at \<open>rooms[roomId].map\<close> (the inherited value is no array), so no room of
    such a name comes to hold a session, and the handlers of the socket events are
    modelled for what their hypotheses give them: own entries;
  \<^item> payload fields have the types of the message schema (room ids and names are
    strings, \<open>muted\<close> is a boolean, \<open>currentTime\<close> is a number or missing);
  \<^item> timestamps are integers (milliseconds) and positions are rationals (seconds);
    rounding of fractions is not modelled. Byte offsets are the numbers \<open>jsnum\<close>
    below;
  \<^item> \<open>null\<close> and \<open>undefined\<close> are both \<open>None\<close>.
\<close>

record client =
  socketId :: string
  userName :: string
  isHost :: "bool option"

record video_state =
  filePath :: string
  fileName :: string
  isPlaying :: bool
  currentTime :: rat
  host :: "string option"
  uploadTime :: int
  lastUpdateTime :: int

text \<open>
  The closure variables \<open>let roomId, userName\<close> of one connection: \<open>undefined\<close> until
  the socket's first \<open>join\<close>.
\<close>

record conn =
  roomIdVar :: "string option"
  userNameVar :: "string option"

text \<open>A file of the uploads directory, as \<open>fs.statSync\<close> and \<open>fs.openSync\<close> see it.\<close>

record file_stat =
  fsize :: int
  mtime :: int
  locked :: bool

text \<open>
  The server's state. Beside the four dictionaries of the source it holds what the
  source reaches through its libraries: the closure variables of every connection, the
  rooms of the Socket.IO adapter (room name to the sockets joined to it; every socket is
  in the room named by its own id), the uploads directory, and the read streams
  (allocated by number; \<open>destroyed\<close> holds those on which \<open>destroy()\<close> was called).
\<close>

record server =
  rooms :: "(string \<times> client list) list"
  videoStates :: "(string \<times> video_state) list"
  micStates :: "(string \<times> (string \<times> bool) list) list"
  activeStreams :: "(string \<times> nat set) list"
  closure :: "string \<Rightarrow> conn"
  sioRooms :: "string \<Rightarrow> string set"
  files :: "(string \<times> file_stat) list"
  destroyed :: "nat set"
  nextStream :: nat

text \<open>A property key: \<open>obj[undefined]\<close> reads the key \<open>"undefined"\<close>.\<close>

definition key_of :: "string option \<Rightarrow> string" where
  "key_of k = (case k of None \<Rightarrow> ''undefined'' | Some r \<Rightarrow> r)"

text \<open>
  The property names of \<open>Object.prototype\<close>. On an object created with \<open>{}\<close> each of
  them reads as a function, \<open>__proto__\<close> as the prototype object itself, unless the
  object has an own property of that name.
\<close>

definition proto_key :: "string \<Rightarrow> bool" where
  "proto_key k =
     (k \<in> set [''constructor'', ''__proto__'', ''hasOwnProperty'', ''isPrototypeOf'',
                ''propertyIsEnumerable'', ''toLocaleString'', ''toString'', ''valueOf'',
                ''__defineGetter__'', ''__defineSetter__'', ''__lookupGetter__'',
                ''__lookupSetter__''])"

subsection \<open>closeActiveStreams\<close>

text \<open>
  \<^verbatim>\<open>
  function closeActiveStreams(roomId) {
    if (activeStreams[roomId] && activeStreams[roomId].size > 0) {
      for (const stream of activeStreams[roomId]) {
        try { stream.destroy(); } catch (error) { ... }
      }
      activeStreams[roomId].clear();
      delete activeStreams[roomId];
    }
  }
  \<close>
\<close>

definition closeActiveStreams :: "server \<Rightarrow> string \<Rightarrow> server" where
  "closeActiveStreams s roomId =
     (case map_of (activeStreams s) roomId of
        None \<Rightarrow> s
      | Some streams \<Rightarrow>
          if streams \<noteq> {} then
            s\<lparr>destroyed := destroyed s \<union> streams,
              activeStreams := AList.delete roomId (activeStreams s)\<rparr>
          else s)"

subsection \<open>Strings and numbers of JavaScript\<close>

text \<open>
  The numbers that byte offsets can be: \<open>NaN\<close>, the two infinities, and \<open>Num i\<close>, the
  double nearest to the integer \<open>i\<close>, which is \<open>i\<close> itself when \<open>\<bar>i\<bar> < 2 ^ 53\<close>. An
  integer of magnitude \<open>2 ^ 1024 - 2 ^ 970\<close> or more has no finite double. Sums and
  differences of \<open>Num\<close> are exact here, which is what JavaScript computes below
  \<open>2 ^ 53\<close>; beyond that \<open>fs.createReadStream\<close> refuses the number (see
  \<open>valid_stream_range\<close>).
\<close>

datatype jsnum = NaN | Num int | PosInfinity | NegInfinity

definition js_number :: "int \<Rightarrow> jsnum" where
  "js_number i =
     (if 2 ^ 1024 - 2 ^ 970 \<le> i then PosInfinity
      else if i \<le> - (2 ^ 1024 - 2 ^ 970) then NegInfinity
      else Num i)"

fun js_minus :: "jsnum \<Rightarrow> jsnum \<Rightarrow> jsnum" where
  "js_minus NaN y = NaN"
| "js_minus x NaN = NaN"
| "js_minus (Num a) (Num b) = Num (a - b)"
| "js_minus (Num a) PosInfinity = NegInfinity"
| "js_minus (Num a) NegInfinity = PosInfinity"
| "js_minus PosInfinity PosInfinity = NaN"
| "js_minus PosInfinity y = PosInfinity"
| "js_minus NegInfinity NegInfinity = NaN"
| "js_minus NegInfinity y = NegInfinity"

fun js_plus :: "jsnum \<Rightarrow> jsnum \<Rightarrow> jsnum" where
  "js_plus NaN y = NaN"
| "js_plus x NaN = NaN"
| "js_plus (Num a) (Num b) = Num (a + b)"
| "js_plus (Num a) y = y"
| "js_plus PosInfinity NegInfinity = NaN"
| "js_plus PosInfinity y = PosInfinity"
| "js_plus NegInfinity PosInfinity = NaN"
| "js_plus NegInfinity y = NegInfinity"

text \<open>
  \<open>parseInt(s, 10)\<close>: leading white space is skipped, a sign is read, then the
  longest run of decimal digits; no digit gives \<open>NaN\<close>. A header value is a string of
  Latin-1 characters, of which the white space of JavaScript is the six below and the
  no-break space.
\<close>

definition is_ws :: "char \<Rightarrow> bool" where
  "is_ws c = (c \<in> set [CHR '' '', CHR 0x09, CHR 0x0A, CHR 0x0B, CHR 0x0C, CHR 0x0D, CHR 0xA0])"

definition is_digit :: "char \<Rightarrow> bool" where
  "is_digit c = (48 \<le> (of_char c :: nat) \<and> (of_char c :: nat) \<le> 57)"

definition digit_val :: "char \<Rightarrow> nat" where
  "digit_val c = (of_char c :: nat) - 48"

definition digits_val :: "string \<Rightarrow> nat" where
  "digits_val ds = foldl (\<lambda>a c. 10 * a + digit_val c) 0 ds"

definition parseInt :: "string \<Rightarrow> jsnum" where
  "parseInt s =
     (let t = dropWhile is_ws s;
          neg = (case t of c # r \<Rightarrow> c = CHR ''-'' | [] \<Rightarrow> False);
          u = (case t of c # r \<Rightarrow> if c = CHR ''-'' \<or> c = CHR ''+'' then r else t | [] \<Rightarrow> t);
          ds = takeWhile is_digit u
      in if ds = [] then NaN
         else js_number (if neg then - int (digits_val ds) else int (digits_val ds)))"

text \<open>
  The text of a number, as a template literal prints it (the decimal digits, for an
  integer below \<open>10 ^ 21\<close>).
\<close>

definition digit_char :: "nat \<Rightarrow> char" where
  "digit_char d = ''0123456789'' ! d"

fun show_nat :: "nat \<Rightarrow> string" where
  "show_nat n = (if n < 10 then [digit_char n] else show_nat (n div 10) @ [digit_char (n mod 10)])"

declare show_nat.simps [simp del]

definition js_string :: "jsnum \<Rightarrow> string" where
  "js_string x =
     (case x of
        NaN \<Rightarrow> ''NaN''
      | Num i \<Rightarrow> if i < 0 then CHR ''-'' # show_nat (nat (- i)) else show_nat (nat i)
      | PosInfinity \<Rightarrow> ''Infinity''
      | NegInfinity \<Rightarrow> ''-Infinity'')"

text \<open>\<open>text.replace(/pat/, "")\<close> for a literal pattern: the first occurrence goes.\<close>

fun replace_first :: "string \<Rightarrow> string \<Rightarrow> string" where
  "replace_first pat [] = []"
| "replace_first pat (c # cs) =
     (if take (length pat) (c # cs) = pat then drop (length pat) (c # cs)
      else c # replace_first pat cs)"

text \<open>\<open>text.split("-")\<close>: never empty, one more part than separators.\<close>

fun split_on :: "char \<Rightarrow> string \<Rightarrow> string list" where
  "split_on d [] = [[]]"
| "split_on d (c # cs) =
     (if c = d then [] # split_on d cs
      else (case split_on d cs of p # ps \<Rightarrow> (c # p) # ps | [] \<Rightarrow> [[c]]))"

text \<open>Truthiness of a string that may be undefined, and \<open>a || b\<close> on such strings.\<close>

definition truthy :: "string option \<Rightarrow> bool" where
  "truthy x = (case x of None \<Rightarrow> False | Some v \<Rightarrow> v \<noteq> [])"

definition js_or :: "string option \<Rightarrow> string option \<Rightarrow> string option" where
  "js_or a b = (if truthy a then a else b)"

subsection \<open>GET /movie/:roomId\<close>

record request =
  paramRoomId :: string
  rangeHeader :: "string option"
  originHeader :: "string option"

record head =
  contentRange :: "string option"
  acceptRanges :: "string option"
  contentLength :: jsnum
  contentType :: string
  cacheControl :: string
  allowOrigin :: string
  allowMethods :: string
  allowHeaders :: string

text \<open>
  What the handler does, in program order. \<open>Register\<close> is
  \<open>activeStreams[roomId].add(file)\<close>; \<open>Pipe\<close> is \<open>file.pipe(res)\<close>, the only call
  that moves bytes of the asset to the client; \<open>OnCleanup\<close> stands for the three
  listeners (\<open>error\<close>, \<open>end\<close>, \<open>close\<close>) that run \<open>cleanupStream\<close>. \<open>Json\<close> is
  \<open>res.status(n).json({ error })\<close>; for the two answers with status 500, which the
  error middleware of the source makes of an exception, the text is the kind of the
  exception, not its whole message.
\<close>

datatype action =
    ResHeader string string
  | Json nat string
  | CreateReadStream nat string "(jsnum \<times> jsnum) option"
  | Register string nat
  | WriteHead nat head
  | OnCleanup nat
  | Pipe nat

text \<open>
  \<open>fs.createReadStream(path, {start, end})\<close> of Node validates its options when it is
  called: \<open>start\<close> must be an integer from 0 to \<open>2 ^ 53 - 1\<close>; \<open>end\<close> must be
  \<open>Infinity\<close>, or such an integer that is not below \<open>start\<close>. Otherwise it throws
  \<open>ERR_OUT_OF_RANGE\<close>. Express hands the exception to the error middleware of the
  source (\<open>res.status(500).json({ error: error.message })\<close>).
\<close>

definition valid_stream_range :: "jsnum \<Rightarrow> jsnum \<Rightarrow> bool" where
  "valid_stream_range start end' =
     (case start of
        Num a \<Rightarrow>
          0 \<le> a \<and> a \<le> 2 ^ 53 - 1 \<and>
          (case end' of
             Num b \<Rightarrow> 0 \<le> b \<and> b \<le> 2 ^ 53 - 1 \<and> a \<le> b
           | PosInfinity \<Rightarrow> True
           | _ \<Rightarrow> False)
      | _ \<Rightarrow> False)"

text \<open>\<open>const chunksize = (end - start) + 1\<close>.\<close>

definition js_chunksize :: "jsnum \<Rightarrow> jsnum \<Rightarrow> jsnum" where
  "js_chunksize start end' = js_plus (js_minus end' start) (Num 1)"

definition add_stream :: "server \<Rightarrow> string \<Rightarrow> nat \<Rightarrow> server" where
  "add_stream s roomId h =
     s\<lparr>activeStreams :=
         AList.update roomId
           (insert h (case map_of (activeStreams s) roomId of None \<Rightarrow> {} | Some streams \<Rightarrow> streams))
           (activeStreams s)\<rparr>"

definition stream_head :: "(string \<Rightarrow> string option) \<Rightarrow> string \<Rightarrow> request \<Rightarrow> string option \<Rightarrow> jsnum \<Rightarrow> head" where
  "stream_head mime_lookup videoPath req cr len =
     \<lparr>contentRange = cr,
      acceptRanges = (if cr = None then None else Some ''bytes''),
      contentLength = len,
      contentType = (case mime_lookup videoPath of None \<Rightarrow> ''video/mp4'' | Some t \<Rightarrow> if t = [] then ''video/mp4'' else t),
      cacheControl = ''no-cache, no-store, must-revalidate'',
      allowOrigin = (if truthy (originHeader req) then the (originHeader req) else ''*''),
      allowMethods = ''GET, HEAD, OPTIONS'',
      allowHeaders = ''Range''\<rparr>"

text \<open>
  Lines 185 to 187: \<open>start\<close> and \<open>end\<close> of a range header.
  \<^verbatim>\<open>
  const parts = range.replace(/bytes=/, "").split("-");
  const start = parseInt(parts[0], 10);
  const end = parts[1] ? parseInt(parts[1], 10) : fileSize - 1;
  \<close>
\<close>

definition parse_range :: "string \<Rightarrow> int \<Rightarrow> jsnum \<times> jsnum" where
  "parse_range header fileSize =
     (let parts = split_on CHR ''-'' (replace_first ''bytes='' header);
          start = parseInt (parts ! 0);
          end' = (if 1 < length parts \<and> parts ! 1 \<noteq> [] then parseInt (parts ! 1)
                  else Num (fileSize - 1))
      in (start, end'))"

text \<open>
  Lines 192 to 196 and 240 to 244, after the read stream \<open>h\<close> has been created:
  \<^verbatim>\<open>
  if (!activeStreams[roomId]) { activeStreams[roomId] = new Set(); }
  activeStreams[roomId].add(file);
  \<close>
  Where the room has no own entry and its id is a property name of
  \<open>Object.prototype\<close>, the read finds the inherited value, no Set is made, and
  \<open>.add\<close> is not a function: the call throws a \<open>TypeError\<close> (\<open>None\<close>).
\<close>

definition register_stream :: "server \<Rightarrow> string \<Rightarrow> nat \<Rightarrow> server option" where
  "register_stream s roomId h =
     (if map_of (activeStreams s) roomId = None \<and> proto_key roomId then None
      else Some (add_stream s roomId h))"

text \<open>
  The handler of lines 160 to 283. \<open>mime_lookup\<close> is \<open>mime.lookup\<close> (a library);
  the read stream is allocated the number \<open>nextStream s\<close>. A read of
  \<open>videoStates[roomId]\<close> that finds an inherited value finds no \<open>filePath\<close> in it,
  and the answer is the 404 of a room without state.
\<close>

definition movie_get :: "(string \<Rightarrow> string option) \<Rightarrow> server \<Rightarrow> request \<Rightarrow> server \<times> action list" where
  "movie_get mime_lookup s req =
     (let cors = [ResHeader ''Access-Control-Allow-Origin'' ''http://localhost:3000'',
                  ResHeader ''Access-Control-Allow-Credentials'' ''true''];
          roomId = paramRoomId req
      in case map_of (videoStates s) roomId of
           None \<Rightarrow> (s, cors @ [Json 404 ''No video found for this room''])
         | Some videoState \<Rightarrow>
             if filePath videoState = [] then (s, cors @ [Json 404 ''No video found for this room''])
             else
               let videoPath = filePath videoState in
               (case map_of (files s) videoPath of
                  None \<Rightarrow> (s, cors @ [Json 404 ''Video file not found''])
                | Some stat \<Rightarrow>
                    let fileSize = fsize stat; h = nextStream s in
                    if truthy (rangeHeader req) then
                      let (start, end') = parse_range (the (rangeHeader req)) fileSize;
                          chunksize = js_chunksize start end'
                      in if \<not> valid_stream_range start end' then (s, cors @ [Json 500 ''ERR_OUT_OF_RANGE''])
                         else
                           (case register_stream (s\<lparr>nextStream := Suc h\<rparr>) roomId h of
                              None \<Rightarrow>
                                (s\<lparr>nextStream := Suc h\<rparr>,
                                 cors @ [CreateReadStream h videoPath (Some (start, end')),
                                         Json 500 ''TypeError''])
                            | Some s' \<Rightarrow>
                                (s',
                                 cors @
                                 [CreateReadStream h videoPath (Some (start, end')),
                                  Register roomId h,
                                  WriteHead 206
                                    (stream_head mime_lookup videoPath req
                                       (Some (''bytes '' @ js_string start @ ''-'' @ js_string end' @ ''/''
                                              @ js_string (Num fileSize)))
                                       chunksize),
                                  OnCleanup h,
                                  Pipe h]))
                    else
                      (case register_stream (s\<lparr>nextStream := Suc h\<rparr>) roomId h of
                         None \<Rightarrow>
                           (s\<lparr>nextStream := Suc h\<rparr>,
                            cors @ [CreateReadStream h videoPath None, Json 500 ''TypeError''])
                       | Some s' \<Rightarrow>
                           (s',
                            cors @
                            [CreateReadStream h videoPath None,
                             Register roomId h,
                             WriteHead 200 (stream_head mime_lookup videoPath req None (Num fileSize)),
                             OnCleanup h,
                             Pipe h]))))"

text \<open>
  \<^verbatim>\<open>
  const cleanupStream = () => {
    if (activeStreams[roomId]) { activeStreams[roomId].delete(file); }
    file.destroy();
  };
  \<close>
  It runs as a listener of a stream that the handler has registered. (Where the read
  of \<open>activeStreams[roomId]\<close> finds an inherited value, \<open>.delete\<close> throws before
  \<open>destroy\<close>; the handler registers no listener for such a room.)
\<close>

definition cleanupStream :: "server \<Rightarrow> string \<Rightarrow> nat \<Rightarrow> server" where
  "cleanupStream s roomId h =
     (case map_of (activeStreams s) roomId of
        None \<Rightarrow> if proto_key roomId then s else s\<lparr>destroyed := insert h (destroyed s)\<rparr>
      | Some streams \<Rightarrow>
          s\<lparr>activeStreams := AList.update roomId (streams - {h}) (activeStreams s),
            destroyed := insert h (destroyed s)\<rparr>)"

text \<open>The status and head of the response, if the handler wrote one with \<open>writeHead\<close>.\<close>

fun written_head :: "action list \<Rightarrow> (nat \<times> head) option" where
  "written_head [] = None"
| "written_head (WriteHead status h # rest) = Some (status, h)"
| "written_head (other # rest) = written_head rest"

definition declared :: "action list \<Rightarrow> (nat \<times> string option \<times> jsnum) option" where
  "declared trace =
     (case written_head trace of
        None \<Rightarrow> None
      | Some (status, h) \<Rightarrow> Some (status, contentRange h, contentLength h))"

subsection \<open>Socket.IO events\<close>

text \<open>
  Where an emit goes: \<open>socket.emit\<close> reaches the socket itself, \<open>socket.to(room).emit\<close>
  every socket joined to the room but the sender, \<open>io.to(room).emit\<close> every socket
  joined to the room. A room named \<open>undefined\<close> has no member. Socket.IO delivers one
  emit at most once to a socket.
\<close>

datatype target =
    ToSelf string
  | ToRoomExcept "string option" string
  | ToRoom string

datatype payload =
    ExistingPeer string
  | MicStatus string bool
  | NewPeer string
  | PeerLeft "string option"
  | Signal "string option" string
  | MoviePlay "rat option" int
  | VideoStateSync bool "string option" bool rat "string option"
  | MoviePartyEnded "string option" string

text \<open>
  What a handler leaves behind beside the new store: its emits, in order, and the timers
  it starts with \<open>cleanupOrphanedVideos(delay)\<close>.
\<close>

datatype effect =
    Emit target payload
  | CleanupOrphanedVideos nat

definition recipients :: "(string \<Rightarrow> string set) \<Rightarrow> target \<Rightarrow> string set" where
  "recipients sio t =
     (case t of
        ToSelf sid \<Rightarrow> {sid}
      | ToRoomExcept r sid \<Rightarrow> (case r of None \<Rightarrow> {} | Some room \<Rightarrow> sio room - {sid})
      | ToRoom room \<Rightarrow> sio room)"

text \<open>
  The payloads that reach the socket \<open>sid\<close> from the effects \<open>out\<close>, in order, and
  how many of them satisfy \<open>P\<close>.
\<close>

definition delivered :: "(string \<Rightarrow> string set) \<Rightarrow> effect list \<Rightarrow> string \<Rightarrow> payload list" where
  "delivered sio out sid =
     concat (map (\<lambda>e. case e of
                          Emit t p \<Rightarrow> if sid \<in> recipients sio t then [p] else []
                        | CleanupOrphanedVideos delay \<Rightarrow> []) out)"

definition received :: "(string \<Rightarrow> string set) \<Rightarrow> (payload \<Rightarrow> bool) \<Rightarrow> effect list \<Rightarrow> string \<Rightarrow> nat" where
  "received sio P out sid = length (filter P (delivered sio out sid))"

definition is_signal :: "payload \<Rightarrow> bool" where
  "is_signal p = (case p of Signal f x \<Rightarrow> True | _ \<Rightarrow> False)"


definition is_video_state_sync :: "payload \<Rightarrow> bool" where
  "is_video_state_sync p = (case p of VideoStateSync a b c d e \<Rightarrow> True | _ \<Rightarrow> False)"

text \<open>
  A new connection: Socket.IO joins the socket to the room named by its own id, and the
  closure variables of the connection callback are undefined.
\<close>

definition on_connection :: "server \<Rightarrow> string \<Rightarrow> server" where
  "on_connection s sid =
     s\<lparr>closure := (closure s)(sid := \<lparr>roomIdVar = None, userNameVar = None\<rparr>),
       sioRooms := (sioRooms s)(sid := insert sid (sioRooms s sid))\<rparr>"

record join_data =
  jRoomId :: string
  jName :: string
  jIsHost :: "bool option"

text \<open>
  The handler of \<open>join\<close>, lines 291 to 347. \<open>join_prepare\<close> is its first part, up to
  \<open>micStates[roomId][userName] = false\<close>.
\<close>

definition join_prepare :: "server \<Rightarrow> string \<Rightarrow> join_data \<Rightarrow> server" where
  "join_prepare s sid d =
     (let r = jRoomId d;
          u = jName d;
          s1 = s\<lparr>closure := (closure s)(sid := \<lparr>roomIdVar = Some r, userNameVar = Some u\<rparr>),
                sioRooms := (sioRooms s)(r := insert sid (sioRooms s r))\<rparr>;
          s2 = (case map_of (rooms s1) r of
                  None \<Rightarrow> s1\<lparr>rooms := AList.update r [] (rooms s1)\<rparr>
                | Some members \<Rightarrow> s1);
          s3 = (case map_of (micStates s2) r of
                  None \<Rightarrow> s2\<lparr>micStates := AList.update r [] (micStates s2)\<rparr>
                | Some m \<Rightarrow> s2)
      in s3\<lparr>micStates :=
              AList.update r (AList.update u False (the (map_of (micStates s3) r))) (micStates s3)\<rparr>)"

definition on_join :: "server \<Rightarrow> string \<Rightarrow> join_data \<Rightarrow> server \<times> effect list" where
  "on_join s sid d =
     (let r = jRoomId d;
          u = jName d;
          s4 = join_prepare s sid d;
          existingParticipants = map userName (the (map_of (rooms s4) r));
          s5 = s4\<lparr>rooms :=
                   AList.update r
                     (the (map_of (rooms s4) r) @ [\<lparr>socketId = sid, userName = u, isHost = jIsHost d\<rparr>])
                     (rooms s4)\<rparr>
      in (s5,
          map (\<lambda>existingName. Emit (ToSelf sid) (ExistingPeer existingName)) existingParticipants
          @ map (\<lambda>(existingUserName, isMuted). Emit (ToSelf sid) (MicStatus existingUserName isMuted))
              (filter (\<lambda>(existingUserName, isMuted). existingUserName \<noteq> u)
                 (the (map_of (micStates s5) r)))
          @ [Emit (ToRoomExcept (Some r) sid) (NewPeer u)]
          @ (case map_of (videoStates s5) r of
               None \<Rightarrow> []
             | Some vs \<Rightarrow>
                 [Emit (ToSelf sid)
                    (VideoStateSync True (Some (fileName vs)) (isPlaying vs) (currentTime vs) (host vs))])))"

record signal_data =
  sTo :: "string option"
  sSignal :: string

text \<open>The handler of \<open>signal\<close>, lines 350 to 366.\<close>

definition on_signal :: "server \<Rightarrow> string \<Rightarrow> signal_data \<Rightarrow> server \<times> effect list" where
  "on_signal s sid d =
     (let roomId = roomIdVar (closure s sid);
          name = userNameVar (closure s sid)
      in if truthy (sTo d) then
           (case map_of (rooms s) (key_of roomId) of
              None \<Rightarrow> (s, [])
            | Some members \<Rightarrow>
                (case find (\<lambda>client. userName client = the (sTo d)) members of
                   None \<Rightarrow> (s, [])
                 | Some targetClient \<Rightarrow>
                     (s, [Emit (ToRoom (socketId targetClient)) (Signal name (sSignal d))])))
         else (s, [Emit (ToRoomExcept roomId sid) (Signal name (sSignal d))]))"

text \<open>
  The handler of \<open>movie-play\<close>, lines 369 to 381; \<open>t1\<close> and \<open>t2\<close> are what its two
  calls of \<open>Date.now()\<close> return.
\<close>

definition on_movie_play :: "server \<Rightarrow> string \<Rightarrow> rat option \<Rightarrow> int \<Rightarrow> int \<Rightarrow> server \<times> effect list" where
  "on_movie_play s sid dataCurrentTime t1 t2 =
     (let roomId = roomIdVar (closure s sid);
          name = userNameVar (closure s sid)
      in case map_of (videoStates s) (key_of roomId) of
           None \<Rightarrow> (s, [])
         | Some vs \<Rightarrow>
             if host vs = name then
               (s\<lparr>videoStates :=
                    AList.update (key_of roomId)
                      (vs\<lparr>isPlaying := True,
                          currentTime := (case dataCurrentTime of None \<Rightarrow> 0 | Some c \<Rightarrow> c),
                          lastUpdateTime := t1\<rparr>)
                      (videoStates s)\<rparr>,
                [Emit (ToRoomExcept roomId sid) (MoviePlay dataCurrentTime t2)])
             else (s, []))"

record state_request =
  qUserName :: "string option"
  qRoomId :: "string option"

text \<open>
  The handler of \<open>request-video-state\<close>, lines 423 to 459. The payload may be missing
  (\<open>data?.roomId\<close>); \<open>now\<close> is what \<open>Date.now()\<close> returns.
\<close>

definition on_request_video_state :: "server \<Rightarrow> string \<Rightarrow> state_request option \<Rightarrow> int \<Rightarrow> server \<times> effect list" where
  "on_request_video_state s sid d now =
     (let requestingRoom =
            js_or (case d of None \<Rightarrow> None | Some q \<Rightarrow> qRoomId q) (roomIdVar (closure s sid))
      in case map_of (videoStates s) (key_of requestingRoom) of
           Some currentState \<Rightarrow>
             (let adjustedCurrentTime =
                    (if isPlaying currentState \<and> lastUpdateTime currentState \<noteq> 0 then
                       currentTime currentState
                         + rat_of_int (now - lastUpdateTime currentState) / 1000
                     else currentTime currentState)
              in (s, [Emit (ToSelf sid)
                        (VideoStateSync True (Some (fileName currentState)) (isPlaying currentState)
                           adjustedCurrentTime (host currentState))]))
         | None \<Rightarrow> (s, [Emit (ToSelf sid) (VideoStateSync False None False 0 None)]))"

subsection \<open>Disconnect\<close>

text \<open>
  \<open>fs.unlinkSync\<close>: the file goes, unless it is locked (\<open>EPERM\<close>, \<open>EBUSY\<close>), which
  throws; \<open>None\<close> is the exception.
\<close>

definition unlinkSync :: "server \<Rightarrow> string \<Rightarrow> server option" where
  "unlinkSync s path =
     (case map_of (files s) path of
        None \<Rightarrow> None
      | Some f \<Rightarrow> if locked f then None else Some (s\<lparr>files := AList.delete path (files s)\<rparr>))"

definition existsSync :: "server \<Rightarrow> string \<Rightarrow> bool" where
  "existsSync s path = (map_of (files s) path \<noteq> None)"

text \<open>
  Lines 560 to 587, taken when the leaving socket's name is the host's and the playback
  state is there: the unlink is inside \<open>try\<close>/\<open>catch\<close>.
\<close>

definition host_left :: "server \<Rightarrow> string \<Rightarrow> string option \<Rightarrow> string option \<Rightarrow> video_state \<Rightarrow> server \<times> effect list" where
  "host_left s sid roomId name vs =
     (let videoPath = filePath vs;
          s1 = (if existsSync s videoPath then
                  (case unlinkSync s videoPath of None \<Rightarrow> s | Some s' \<Rightarrow> s')
                else s);
          s2 = s1\<lparr>videoStates := AList.delete (key_of roomId) (videoStates s1)\<rparr>;
          s3 = closeActiveStreams s2 (key_of roomId)
      in (s3,
          [Emit (ToRoomExcept roomId sid)
             (MoviePartyEnded name ''Movie party ended - host disconnected''),
           CleanupOrphanedVideos 2000]))"

text \<open>
  Lines 590 to 616, taken when the room's list is empty after the filter. The unlink of
  the fallback is outside any \<open>try\<close>: when it throws, the handler stops there, and the
  result says so (\<open>True\<close>).
\<close>

definition room_emptied :: "server \<Rightarrow> string \<Rightarrow> server \<times> effect list \<times> bool" where
  "room_emptied s k =
     (let s1 = s\<lparr>rooms := AList.delete k (rooms s)\<rparr>;
          s2 = (case map_of (micStates s1) k of
                  None \<Rightarrow> s1
                | Some m \<Rightarrow> s1\<lparr>micStates := AList.delete k (micStates s1)\<rparr>)
      in case map_of (videoStates s2) k of
           None \<Rightarrow> (closeActiveStreams s2 k, [CleanupOrphanedVideos 2000], False)
         | Some vs \<Rightarrow>
             if existsSync s2 (filePath vs) then
               (case unlinkSync s2 (filePath vs) of
                  None \<Rightarrow> (s2, [], True)
                | Some s3 \<Rightarrow>
                    (closeActiveStreams (s3\<lparr>videoStates := AList.delete k (videoStates s3)\<rparr>) k,
                     [CleanupOrphanedVideos 2000], False))
             else
               (closeActiveStreams (s2\<lparr>videoStates := AList.delete k (videoStates s2)\<rparr>) k,
                [CleanupOrphanedVideos 2000], False))"

text \<open>
  Socket.IO takes a closing socket out of every room of the adapter before the
  \<open>disconnect\<close> event fires.
\<close>

definition leave_all :: "server \<Rightarrow> string \<Rightarrow> server" where
  "leave_all s sid = s\<lparr>sioRooms := (\<lambda>room. sioRooms s room - {sid})\<rparr>"

text \<open>
  Lines 548 to 554: the room's list becomes \<open>remaining\<close>, the list without the
  entries of the leaving socket, and the leaving name's microphone entry goes.
\<close>

definition remove_client :: "server \<Rightarrow> string \<Rightarrow> string option \<Rightarrow> client list \<Rightarrow> server" where
  "remove_client s k name remaining =
     (let s1 = s\<lparr>rooms := AList.update k remaining (rooms s)\<rparr>
      in case map_of (micStates s1) k of
           None \<Rightarrow> s1
         | Some m \<Rightarrow>
             s1\<lparr>micStates := AList.update k (AList.delete (key_of name) m) (micStates s1)\<rparr>)"

text \<open>
  The handler of \<open>disconnect\<close>, lines 537 to 618. The third component tells whether
  the handler ended by an uncaught exception.
\<close>

definition on_disconnect :: "server \<Rightarrow> string \<Rightarrow> server \<times> effect list \<times> bool" where
  "on_disconnect s sid =
     (let s0 = leave_all s sid;
          roomId = roomIdVar (closure s0 sid);
          name = userNameVar (closure s0 sid);
          k = key_of roomId;
          wasHost = (case map_of (videoStates s0) k of None \<Rightarrow> False | Some vs \<Rightarrow> host vs = name)
      in case map_of (rooms s0) k of
           None \<Rightarrow> (s0, [], False)
         | Some members \<Rightarrow>
             let remaining = filter (\<lambda>client. socketId client \<noteq> sid) members;
                 s2 = remove_client s0 k name remaining;
                 out1 = [Emit (ToRoomExcept roomId sid) (PeerLeft name)];
                 (s3, out3) = (case map_of (videoStates s2) k of
                                 None \<Rightarrow> (s2, [])
                               | Some vs \<Rightarrow> if wasHost then host_left s2 sid roomId name vs else (s2, []))
             in if remaining = [] then
                  (let (s4, out4, threw) = room_emptied s3 k in (s4, out1 @ out3 @ out4, threw))
                else (s3, out1 @ out3, False))"

subsection \<open>The periodic cleanup\<close>

text \<open>
  Lines 696 to 744, run every five minutes. A file of the uploads directory is named
  here by the path \<open>path.join(uploadsDir, file)\<close>, the form in which
  \<open>videoStates[roomId].filePath\<close> holds it.
  \<^verbatim>\<open>
  const isInUse = Object.values(videoStates).some(state => state.filePath === filePath);
  const shouldDelete = (!isInUse && fileAge > 60 * 60 * 1000) ||
        (Object.keys(videoStates).length === 0 && fileAge > 10 * 60 * 1000);
  \<close>
\<close>

definition isInUse :: "(string \<times> video_state) list \<Rightarrow> string \<Rightarrow> bool" where
  "isInUse states path = list_ex (\<lambda>state. filePath state = path) (map snd states)"

definition shouldDelete :: "(string \<times> video_state) list \<Rightarrow> int \<Rightarrow> string \<Rightarrow> bool" where
  "shouldDelete states fileAge path =
     ((\<not> isInUse states path \<and> fileAge > 60 * 60 * 1000)
      \<or> (length (map fst states) = 0 \<and> fileAge > 10 * 60 * 1000))"

text \<open>
  One round of the \<open>forEach\<close>: the new store, and whether the \<open>if (shouldDelete)\<close>
  block was entered, that is, whether the deletion was attempted. \<open>statSync\<close> throws on
  a file that is gone, \<open>openSync(filePath, 'r+')\<close> on a locked one; both are caught.
\<close>

definition cleanup_file :: "int \<Rightarrow> server \<Rightarrow> string \<Rightarrow> server \<times> bool" where
  "cleanup_file now s path =
     (case map_of (files s) path of
        None \<Rightarrow> (s, False)
      | Some stat \<Rightarrow>
          let fileAge = now - mtime stat in
          if shouldDelete (videoStates s) fileAge path then
            (if locked stat then (s, True)
             else (s\<lparr>files := AList.delete path (files s)\<rparr>, True))
          else (s, False))"

text \<open>The pass over \<open>files\<close>, the result of \<open>readdir\<close>: the store and the files tried.\<close>

fun periodic_cleanup :: "int \<Rightarrow> server \<Rightarrow> string list \<Rightarrow> server \<times> string list" where
  "periodic_cleanup now s [] = (s, [])"
| "periodic_cleanup now s (path # paths) =
     (let (s1, tried) = cleanup_file now s path;
          (s2, others) = periodic_cleanup now s1 paths
      in (s2, (if tried then [path] else []) @ others))"

definition readdir :: "server \<Rightarrow> string list" where
  "readdir s = map fst (files s)"

section \<open>The WebSocket signaling server\<close>

text \<open>
  The second source file keeps \<open>rooms\<close> as lists of WebSocket objects, numbered here.
  \<open>ws.userName\<close> and \<open>ws.readyState\<close> are properties of the object; \<open>roomId\<close> and
  \<open>name\<close> are the closure variables of its connection. The whole message handler is
  inside \<open>try\<close>/\<open>catch\<close>: an exception ends the handling of the message and is logged.
\<close>

datatype ready_state = CONNECTING | OPEN | CLOSING | CLOSED

record ws_server =
  wsRooms :: "(string \<times> nat list) list"
  wsUserName :: "nat \<Rightarrow> string option"
  readyState :: "nat \<Rightarrow> ready_state"
  wsRoomIdVar :: "nat \<Rightarrow> string option"
  wsNameVar :: "nat \<Rightarrow> string option"

text \<open>
  A \<open>send\<close>: the receiving object and the message, which is \<open>{type, name}\<close> for the
  three notices of a join and \<open>{type: 'signal', from, signal}\<close> for a signal.
\<close>

datatype ws_message =
    WsExistingPeer string
  | WsNewPeer string
  | WsRefreshPeer string
  | WsSignal "string option" string

type_synonym ws_send = "nat \<times> ws_message"

text \<open>The messages sent to the connection \<open>client\<close>, in order.\<close>

definition ws_received :: "ws_send list \<Rightarrow> nat \<Rightarrow> ws_message list" where
  "ws_received out client = map snd (filter (\<lambda>m. fst m = client) out)"

text \<open>
  \<open>case 'join'\<close> of the message handler. The connection is pushed onto the room's list
  whether or not it is there already. \<open>rooms\<close> is created with \<open>{}\<close>: for a room id
  that is a property name of \<open>Object.prototype\<close> and has no own entry,
  \<open>(rooms[roomId] || []).map\<close> throws after the two closure variables are set.
\<close>

definition ws_join :: "ws_server \<Rightarrow> nat \<Rightarrow> string \<Rightarrow> string \<Rightarrow> ws_server \<times> ws_send list" where
  "ws_join s ws dataRoomId dataName =
     (let s1 = s\<lparr>wsRoomIdVar := (wsRoomIdVar s)(ws := Some dataRoomId),
                wsNameVar := (wsNameVar s)(ws := Some dataName)\<rparr>
      in if map_of (wsRooms s1) dataRoomId = None \<and> proto_key dataRoomId then (s1, [])
         else
           let before = (case map_of (wsRooms s1) dataRoomId of None \<Rightarrow> [] | Some cs \<Rightarrow> cs);
               existingParticipants = map the (filter truthy (map (wsUserName s1) before));
               members = before @ [ws];
               s2 = s1\<lparr>wsUserName := (wsUserName s1)(ws := Some dataName),
                       wsRooms := AList.update dataRoomId members (wsRooms s1)\<rparr>
           in (s2,
               map (\<lambda>existingName. (ws, WsExistingPeer existingName)) existingParticipants
               @ map (\<lambda>client. (client, WsNewPeer dataName))
                   (filter (\<lambda>client. client \<noteq> ws \<and> readyState s2 client = OPEN) members)
               @ (if 2 \<le> length existingParticipants then
                    concat (map (\<lambda>peer1.
                      concat (map (\<lambda>peer2.
                        if peer1 \<noteq> peer2 then
                          (case find (\<lambda>c. wsUserName s2 c = Some peer1) members of
                             None \<Rightarrow> []
                           | Some client1 \<Rightarrow>
                               if readyState s2 client1 = OPEN then [(client1, WsRefreshPeer peer2)]
                               else [])
                        else []) existingParticipants)) existingParticipants)
                  else [])))"

text \<open>
  \<open>case 'signal'\<close> of the message handler. Where \<open>rooms[roomId]\<close> is an inherited
  value, \<open>.find\<close> and \<open>.forEach\<close> are not functions and the exception is caught:
  nothing is sent, as for a room that is not there.
\<close>

definition ws_signal :: "ws_server \<Rightarrow> nat \<Rightarrow> signal_data \<Rightarrow> ws_send list" where
  "ws_signal s ws d =
     (let roomId = wsRoomIdVar s ws;
          name = wsNameVar s ws;
          members = (case map_of (wsRooms s) (key_of roomId) of None \<Rightarrow> [] | Some cs \<Rightarrow> cs)
      in if truthy (sTo d) then
           (case find (\<lambda>client. wsUserName s client = sTo d) members of
              None \<Rightarrow> []
            | Some targetClient \<Rightarrow>
                if readyState s targetClient = OPEN then [(targetClient, WsSignal name (sSignal d))]
                else [])
         else
           map (\<lambda>client. (client, WsSignal name (sSignal d)))
             (filter (\<lambda>client. client \<noteq> ws \<and> readyState s client = OPEN) members))"

section \<open>Stores used as examples\<close>

definition no_conn :: conn where
  "no_conn = \<lparr>roomIdVar = None, userNameVar = None\<rparr>"

definition empty_server :: server where
  "empty_server =
     \<lparr>rooms = [], videoStates = [], micStates = [], activeStreams = [],
      closure = (\<lambda>sid. no_conn), sioRooms = (\<lambda>room. {}), files = [],
      destroyed = {}, nextStream = 0\<rparr>"

text \<open>A playback state of room \<open>r1\<close>, uploaded by \<open>alice\<close>, over an asset of 1000 bytes.\<close>

definition movie_state :: video_state where
  "movie_state =
     \<lparr>filePath = ''uploads/movie-r1-1.mp4'', fileName = ''film.mp4'', isPlaying = False,
      currentTime = 0, host = Some ''alice'', uploadTime = 1000, lastUpdateTime = 1000\<rparr>"

definition movie_file :: file_stat where
  "movie_file = \<lparr>fsize = 1000, mtime = 1000, locked = False\<rparr>"

definition uploaded_server :: server where
  "uploaded_server =
     empty_server\<lparr>videoStates := [(''r1'', movie_state)],
                  files := [(''uploads/movie-r1-1.mp4'', movie_file)]\<rparr>"

text \<open>The same room while the film plays: position 10 s, last updated at 1000000 ms.\<close>

definition playing_server :: server where
  "playing_server =
     uploaded_server\<lparr>videoStates :=
        [(''r1'', movie_state\<lparr>isPlaying := True, currentTime := 10, lastUpdateTime := 1000000\<rparr>)]\<rparr>"

definition join_alice :: join_data where
  "join_alice = \<lparr>jRoomId = ''r1'', jName = ''alice'', jIsHost = Some True\<rparr>"

definition join_bob :: join_data where
  "join_bob = \<lparr>jRoomId = ''r1'', jName = ''bob'', jIsHost = Some False\<rparr>"

text \<open>Room \<open>r1\<close> with the guest \<open>bob\<close> on socket \<open>s2\<close>; the host is \<open>alice\<close>.\<close>

definition guest_server :: server where
  "guest_server =
     uploaded_server\<lparr>closure :=
        (\<lambda>sid. if sid = ''s2'' then \<lparr>roomIdVar = Some ''r1'', userNameVar = Some ''bob''\<rparr>
               else no_conn)\<rparr>"


text \<open>
  Room \<open>r1\<close> with the guest \<open>bob\<close> alone (the uploader never joined), then the same
  store after \<open>bob\<close> has fetched the whole asset and the stream has ended.
\<close>

definition lone_guest_server :: server where
  "lone_guest_server =
     \<lparr>rooms = [(''r1'', [\<lparr>socketId = ''s2'', userName = ''bob'', isHost = Some False\<rparr>])],
      videoStates = [(''r1'', movie_state)],
      micStates = [(''r1'', [(''bob'', False)])],
      activeStreams = [],
      closure = (\<lambda>sid. if sid = ''s2'' then \<lparr>roomIdVar = Some ''r1'', userNameVar = Some ''bob''\<rparr>
                     else no_conn),
      sioRooms = (\<lambda>room. if room = ''r1'' \<or> room = ''s2'' then {''s2''} else {}),
      files = [(''uploads/movie-r1-1.mp4'', movie_file)],
      destroyed = {},
      nextStream = 0\<rparr>"

definition mp4_only :: "string \<Rightarrow> string option" where
  "mp4_only path = Some ''video/mp4''"

definition whole_asset :: request where
  "whole_asset = \<lparr>paramRoomId = ''r1'', rangeHeader = None, originHeader = None\<rparr>"

definition watched_server :: server where
  "watched_server = cleanupStream (fst (movie_get mp4_only lone_guest_server whole_asset)) ''r1'' 0"

text \<open>
  Room \<open>r1\<close> with \<open>alice\<close> (socket \<open>s1\<close>) and \<open>bob\<close> (socket \<open>s2\<close>) and no
  playback state; a WebSocket room of three open connections; two signal messages.
\<close>

definition two_guests :: server where
  "two_guests =
     \<lparr>rooms = [(''r1'', [\<lparr>socketId = ''s1'', userName = ''alice'', isHost = Some True\<rparr>,
                         \<lparr>socketId = ''s2'', userName = ''bob'', isHost = Some False\<rparr>])],
      videoStates = [],
      micStates = [(''r1'', [(''alice'', False), (''bob'', False)])],
      activeStreams = [],
      closure = (\<lambda>sid. if sid = ''s1'' then \<lparr>roomIdVar = Some ''r1'', userNameVar = Some ''alice''\<rparr>
                     else if sid = ''s2'' then \<lparr>roomIdVar = Some ''r1'', userNameVar = Some ''bob''\<rparr>
                     else no_conn),
      sioRooms = (\<lambda>room. if room = ''r1'' then {''s1'', ''s2''}
                       else if room = ''s1'' then {''s1''}
                       else if room = ''s2'' then {''s2''} else {}),
      files = [],
      destroyed = {},
      nextStream = 0\<rparr>"

definition ws_room :: ws_server where
  "ws_room =
     \<lparr>wsRooms = [(''r1'', [1, 2, 3])],
      wsUserName = (\<lambda>c. if c = 1 then Some ''alice'' else if c = 2 then Some ''bob''
                         else if c = 3 then Some ''carol'' else None),
      readyState = (\<lambda>c. OPEN),
      wsRoomIdVar = (\<lambda>c. if c \<in> {1, 2, 3} then Some ''r1'' else None),
      wsNameVar = (\<lambda>c. if c = 1 then Some ''alice'' else if c = 2 then Some ''bob''
                        else if c = 3 then Some ''carol'' else None)\<rparr>"

text \<open>
  A WebSocket server with open connections and no room; the same after connection 1
  has joined \<open>r1\<close> as \<open>alice\<close> and connection 2 has joined \<open>r1\<close> as \<open>bob\<close> twice.
\<close>

definition ws_empty :: ws_server where
  "ws_empty =
     \<lparr>wsRooms = [], wsUserName = (\<lambda>c. None), readyState = (\<lambda>c. OPEN),
      wsRoomIdVar = (\<lambda>c. None), wsNameVar = (\<lambda>c. None)\<rparr>"

definition ws_rejoined :: ws_server where
  "ws_rejoined =
     fst (ws_join (fst (ws_join (fst (ws_join ws_empty 1 ''r1'' ''alice'')) 2 ''r1'' ''bob''))
            2 ''r1'' ''bob'')"

text \<open>A signal message whose \<open>to\<close> is the empty string.\<close>

definition empty_target :: signal_data where
  "empty_target = \<lparr>sTo = Some [], sSignal = ''offer''\<rparr>"

definition targeted :: signal_data where
  "targeted = \<lparr>sTo = Some ''zoe'', sSignal = ''offer''\<rparr>"

definition broadcast :: signal_data where
  "broadcast = \<lparr>sTo = None, sSignal = ''offer''\<rparr>"

text \<open>
  The room of \<open>two_guests\<close> (no playback state anywhere) with a file in the uploads
  directory that was last modified at time 0.
\<close>

definition old_file :: file_stat where
  "old_file = \<lparr>fsize = 5000, mtime = 0, locked = False\<rparr>"

definition chat_server :: server where
  "chat_server = two_guests\<lparr>files := [(''uploads/movie-r9-7.mp4'', old_file)]\<rparr>"

text \<open>
  The store after an upload of the same asset for the room id \<open>constructor\<close> (the
  upload assigns \<open>videoStates[roomId]\<close>, which makes an own property), and a range
  request for that room.
\<close>

definition constructor_state :: video_state where
  "constructor_state = movie_state\<lparr>filePath := ''uploads/movie-constructor-1.mp4''\<rparr>"

definition constructor_server :: server where
  "constructor_server =
     empty_server\<lparr>videoStates := [(''constructor'', constructor_state)],
                  files := [(''uploads/movie-constructor-1.mp4'', movie_file)]\<rparr>"

definition constructor_request :: request where
  "constructor_request =
     \<lparr>paramRoomId = ''constructor'', rangeHeader = Some ''bytes=100-199'', originHeader = None\<rparr>"

definition range_request :: "string \<Rightarrow> request" where
  "range_request header = \<lparr>paramRoomId = ''r1'', rangeHeader = Some header, originHeader = None\<rparr>"

section \<open>Properties of closeActiveStreams\<close>

lemma r1_no_proto_key: "\<not> proto_key ''r1''"
  by (simp add: proto_key_def)

lemma closeActiveStreams_absent:
  "map_of (activeStreams s) roomId = None \<Longrightarrow> closeActiveStreams s roomId = s"
  by (simp add: closeActiveStreams_def)

lemma closeActiveStreams_empty:
  "map_of (activeStreams s) roomId = Some {} \<Longrightarrow> closeActiveStreams s roomId = s"
  by (simp add: closeActiveStreams_def)

lemma closeActiveStreams_removes:
  "map_of (activeStreams s) roomId = Some streams \<Longrightarrow> streams \<noteq> {} \<Longrightarrow>
     map_of (activeStreams (closeActiveStreams s roomId)) roomId = None"
  by (simp add: closeActiveStreams_def AList.delete_conv')

lemma closeActiveStreams_videoStates [simp]:
  "videoStates (closeActiveStreams s roomId) = videoStates s"
  by (simp add: closeActiveStreams_def split: option.splits)

lemma closeActiveStreams_rooms [simp]:
  "rooms (closeActiveStreams s roomId) = rooms s"
  by (simp add: closeActiveStreams_def split: option.splits)

lemma closeActiveStreams_micStates [simp]:
  "micStates (closeActiveStreams s roomId) = micStates s"
  by (simp add: closeActiveStreams_def split: option.splits)


text \<open>
  C9. Calling closeActiveStreams twice in succession on a room leaves the store as one
  call does, and a call on a room whose stream set is absent or empty returns the store
  unchanged.
\<close>

theorem closeActiveStreams_idempotent:
  "closeActiveStreams (closeActiveStreams s roomId) roomId = closeActiveStreams s roomId
   \<and> (map_of (activeStreams s) roomId = None \<or> map_of (activeStreams s) roomId = Some {}
        \<longrightarrow> closeActiveStreams s roomId = s)"
proof -
  have twice: "closeActiveStreams (closeActiveStreams s roomId) roomId = closeActiveStreams s roomId"
  proof (cases "map_of (activeStreams s) roomId")
    case None
    then show ?thesis by (simp add: closeActiveStreams_absent)
  next
    case (Some streams)
    show ?thesis
    proof (cases "streams = {}")
      case True
      with Some show ?thesis by (simp add: closeActiveStreams_empty)
    next
      case False
      with Some have "map_of (activeStreams (closeActiveStreams s roomId)) roomId = None"
        by (rule closeActiveStreams_removes)
      then show ?thesis by (rule closeActiveStreams_absent)
    qed
  qed
  have noop: "map_of (activeStreams s) roomId = None \<or> map_of (activeStreams s) roomId = Some {}
        \<longrightarrow> closeActiveStreams s roomId = s"
    using closeActiveStreams_absent closeActiveStreams_empty by blast
  from twice noop show ?thesis by simp
qed

theorem closeActiveStreams_idempotent_witness:
  "map_of (activeStreams empty_server) ''r1'' = None
   \<and> closeActiveStreams empty_server ''r1'' = empty_server
   \<and> closeActiveStreams (closeActiveStreams (add_stream empty_server ''r1'' 0) ''r1'') ''r1''
       = closeActiveStreams (add_stream empty_server ''r1'' 0) ''r1''"
  using closeActiveStreams_idempotent [of empty_server "''r1''"]
        closeActiveStreams_idempotent [of "add_stream empty_server ''r1'' 0" "''r1''"]
  by (simp add: empty_server_def)

section \<open>Playback control and state queries\<close>

lemma join_prepare_videoStates [simp]: "videoStates (join_prepare s sid d) = videoStates s"
  by (simp add: join_prepare_def Let_def split: option.splits)

lemma join_prepare_closure [simp]:
  "closure (join_prepare s sid d) sid = \<lparr>roomIdVar = Some (jRoomId d), userNameVar = Some (jName d)\<rparr>"
  by (simp add: join_prepare_def Let_def split: option.splits)

lemma join_prepare_sioRooms [simp]:
  "sioRooms (join_prepare s sid d) = (sioRooms s)(jRoomId d := insert sid (sioRooms s (jRoomId d)))"
  by (simp add: join_prepare_def Let_def split: option.splits)

lemma on_join_videoStates: "videoStates (fst (on_join s sid d)) = videoStates s"
  by (simp add: on_join_def Let_def)

lemma on_join_closure:
  "closure (fst (on_join s sid d)) sid = \<lparr>roomIdVar = Some (jRoomId d), userNameVar = Some (jName d)\<rparr>"
  by (simp add: on_join_def Let_def)

lemma on_join_sync:
  assumes "map_of (videoStates s) (jRoomId d) = Some vs"
  shows "filter is_video_state_sync (delivered sio (snd (on_join s sid d)) sid)
         = [VideoStateSync True (Some (fileName vs)) (isPlaying vs) (currentTime vs) (host vs)]"
  using assms
  by (simp add: on_join_def Let_def delivered_def recipients_def is_video_state_sync_def
      filter_concat o_def split_def)

lemma request_video_state_found:
  assumes "map_of (videoStates s)
             (key_of (js_or (case q of None \<Rightarrow> None | Some x \<Rightarrow> qRoomId x)
                        (roomIdVar (closure s sid)))) = Some vs"
  shows "on_request_video_state s sid q now =
           (s, [Emit (ToSelf sid)
                  (VideoStateSync True (Some (fileName vs)) (isPlaying vs)
                     (if isPlaying vs \<and> lastUpdateTime vs \<noteq> 0
                      then currentTime vs + rat_of_int (now - lastUpdateTime vs) / 1000
                      else currentTime vs)
                     (host vs))])"
  using assms by (simp add: on_request_video_state_def Let_def)

text \<open>
  C6. A movie-play request from a session whose name is not the host of the room's
  playback state returns the store as it was (so \<open>isPlaying\<close>, \<open>currentTime\<close> and
  \<open>lastUpdateTime\<close> are unchanged) and emits nothing.
\<close>

theorem movie_play_from_non_host_ignored:
  assumes "map_of (videoStates s) (key_of (roomIdVar (closure s sid))) = Some vs"
      and "userNameVar (closure s sid) \<noteq> host vs"
  shows "on_movie_play s sid position t1 t2 = (s, [])"
  using assms by (auto simp add: on_movie_play_def Let_def)

theorem movie_play_from_non_host_ignored_witness:
  "map_of (videoStates guest_server) (key_of (roomIdVar (closure guest_server ''s2''))) = Some movie_state
   \<and> userNameVar (closure guest_server ''s2'') = Some ''bob''
   \<and> host movie_state = Some ''alice''
   \<and> on_movie_play guest_server ''s2'' (Some 42) 5000 5001 = (guest_server, [])"
  using movie_play_from_non_host_ignored [of guest_server "''s2''" movie_state "Some 42" 5000 5001]
  by (simp add: guest_server_def uploaded_server_def empty_server_def movie_state_def key_of_def)

text \<open>
  C4. A state query on a room whose playback state has position \<open>p\<close> and was last
  updated at \<open>T\<close>: when the state is playing, a query \<open>d\<close> seconds after \<open>T\<close> (the
  clock counts milliseconds, so at \<open>T + 1000 * d\<close>) answers position \<open>p + d\<close>; when it
  is not playing, the query answers \<open>p\<close> as stored. \<open>lastUpdateTime\<close> is always a value
  of \<open>Date.now()\<close>, which is not zero; the source tests it for truthiness.
\<close>

theorem request_video_state_position:
  assumes "map_of (videoStates s)
             (key_of (js_or (case q of None \<Rightarrow> None | Some x \<Rightarrow> qRoomId x)
                        (roomIdVar (closure s sid)))) = Some vs"
      and "isPlaying vs \<longrightarrow> lastUpdateTime vs \<noteq> 0"
      and "rat_of_int (now - lastUpdateTime vs) = 1000 * d"
  shows "on_request_video_state s sid q now =
           (s, [Emit (ToSelf sid)
                  (VideoStateSync True (Some (fileName vs)) (isPlaying vs)
                     (if isPlaying vs then currentTime vs + d else currentTime vs)
                     (host vs))])"
  using assms by (simp add: request_video_state_found)

theorem request_video_state_position_witness:
  "on_request_video_state playing_server ''s2''
       (Some \<lparr>qUserName = Some ''bob'', qRoomId = Some ''r1''\<rparr>) 1005000
     = (playing_server,
        [Emit (ToSelf ''s2'') (VideoStateSync True (Some ''film.mp4'') True 15 (Some ''alice''))])
   \<and> on_request_video_state uploaded_server ''s2''
       (Some \<lparr>qUserName = Some ''bob'', qRoomId = Some ''r1''\<rparr>) 1005000
     = (uploaded_server,
        [Emit (ToSelf ''s2'') (VideoStateSync True (Some ''film.mp4'') False 0 (Some ''alice''))])"
  using request_video_state_position [of playing_server
          "Some \<lparr>qUserName = Some ''bob'', qRoomId = Some ''r1''\<rparr>" "''s2''"
          "movie_state\<lparr>isPlaying := True, currentTime := 10, lastUpdateTime := 1000000\<rparr>" 1005000 5]
        request_video_state_position [of uploaded_server
          "Some \<lparr>qUserName = Some ''bob'', qRoomId = Some ''r1''\<rparr>" "''s2''" movie_state 1005000 1004]
  by (simp add: playing_server_def uploaded_server_def empty_server_def movie_state_def
      key_of_def js_or_def truthy_def)

text \<open>
  C10. When a session joins a room whose playback state is playing, the one
  video-state-sync it is sent by the join carries the stored position as it is, and the
  answer to its next request-video-state (for its own room, at time \<open>now\<close>) carries the
  stored position plus the seconds elapsed since the last update.
\<close>

theorem join_sync_is_not_extrapolated:
  assumes "map_of (videoStates s) (jRoomId d) = Some vs"
      and "isPlaying vs" and "lastUpdateTime vs \<noteq> 0"
      and "js_or (case q of None \<Rightarrow> None | Some x \<Rightarrow> qRoomId x) (Some (jRoomId d)) = Some (jRoomId d)"
  shows "filter is_video_state_sync
           (delivered (sioRooms (fst (on_join s sid d))) (snd (on_join s sid d)) sid)
           = [VideoStateSync True (Some (fileName vs)) True (currentTime vs) (host vs)]
         \<and> snd (on_request_video_state (fst (on_join s sid d)) sid q now)
           = [Emit (ToSelf sid)
                (VideoStateSync True (Some (fileName vs)) True
                   (currentTime vs + rat_of_int (now - lastUpdateTime vs) / 1000) (host vs))]"
proof -
  let ?s' = "fst (on_join s sid d)"
  let ?room = "js_or (case q of None \<Rightarrow> None | Some x \<Rightarrow> qRoomId x) (roomIdVar (closure ?s' sid))"
  have pushed: "filter is_video_state_sync (delivered (sioRooms ?s') (snd (on_join s sid d)) sid)
           = [VideoStateSync True (Some (fileName vs)) True (currentTime vs) (host vs)]"
    using on_join_sync [OF assms(1)] assms(2) by simp
  have room: "?room = Some (jRoomId d)"
    using assms(4) by (simp add: on_join_closure)
  have "map_of (videoStates ?s') (key_of ?room) = Some vs"
    using assms(1) by (simp add: room key_of_def on_join_videoStates)
  from request_video_state_found [OF this] assms(2,3)
  have "snd (on_request_video_state ?s' sid q now)
           = [Emit (ToSelf sid)
                (VideoStateSync True (Some (fileName vs)) True
                   (currentTime vs + rat_of_int (now - lastUpdateTime vs) / 1000) (host vs))]"
    by simp
  with pushed show ?thesis by simp
qed

theorem join_sync_is_not_extrapolated_witness:
  "filter is_video_state_sync
     (delivered (sioRooms (fst (on_join playing_server ''s2'' join_bob)))
        (snd (on_join playing_server ''s2'' join_bob)) ''s2'')
     = [VideoStateSync True (Some ''film.mp4'') True 10 (Some ''alice'')]
   \<and> snd (on_request_video_state (fst (on_join playing_server ''s2'' join_bob)) ''s2'' None 1005000)
     = [Emit (ToSelf ''s2'') (VideoStateSync True (Some ''film.mp4'') True 15 (Some ''alice''))]"
  using join_sync_is_not_extrapolated [of playing_server join_bob
          "movie_state\<lparr>isPlaying := True, currentTime := 10, lastUpdateTime := 1000000\<rparr>"
          None "''s2''" 1005000]
  by (simp add: playing_server_def uploaded_server_def empty_server_def movie_state_def
      join_bob_def js_or_def truthy_def)

section \<open>The signal relay\<close>

lemma find_None_iff_absent: "find P xs = None \<longleftrightarrow> (\<forall>x\<in>set xs. \<not> P x)"
  by (induction xs) auto

lemma on_signal_absent:
  assumes "sTo d = Some t" and "t \<noteq> []"
      and "\<forall>members. map_of (rooms s) (key_of (roomIdVar (closure s sid))) = Some members
             \<longrightarrow> t \<notin> userName ` set members"
  shows "on_signal s sid d = (s, [])"
proof (cases "map_of (rooms s) (key_of (roomIdVar (closure s sid)))")
  case None
  with assms(1,2) show ?thesis by (simp add: on_signal_def Let_def truthy_def)
next
  case (Some members)
  with assms(3) have "t \<notin> userName ` set members" by simp
  then have "find (\<lambda>client. userName client = t) members = None"
    by (auto simp add: find_None_iff_absent)
  with Some assms(1,2) show ?thesis by (simp add: on_signal_def Let_def truthy_def)
qed

lemma on_signal_broadcast:
  assumes "\<not> truthy (sTo d)"
  shows "on_signal s sid d =
           (s, [Emit (ToRoomExcept (roomIdVar (closure s sid)) sid)
                  (Signal (userNameVar (closure s sid)) (sSignal d))])"
  using assms by (simp add: on_signal_def Let_def)

lemma delivered_broadcast:
  "delivered sio [Emit (ToRoomExcept (Some r) sid) p] t = (if t \<in> sio r - {sid} then [p] else [])"
  by (simp add: delivered_def recipients_def)

lemma ws_received_map:
  "ws_received (map (\<lambda>client. (client, m)) cs) c = replicate (count_list cs c) m"
  by (induction cs) (auto simp add: ws_received_def)

lemma count_list_filter: "count_list (filter P cs) c = (if P c then count_list cs c else 0)"
  by (induction cs) auto

lemma ws_signal_absent:
  assumes "sTo d = Some t" and "t \<noteq> []"
      and "\<forall>members. map_of (wsRooms w) (key_of (wsRoomIdVar w ws)) = Some members
             \<longrightarrow> (\<forall>c\<in>set members. wsUserName w c \<noteq> Some t)"
  shows "ws_signal w ws d = []"
proof -
  let ?members = "case map_of (wsRooms w) (key_of (wsRoomIdVar w ws)) of None \<Rightarrow> [] | Some cs \<Rightarrow> cs"
  have "\<forall>c\<in>set ?members. wsUserName w c \<noteq> Some t"
  proof (cases "map_of (wsRooms w) (key_of (wsRoomIdVar w ws))")
    case None
    then show ?thesis by simp
  next
    case (Some cs)
    with assms(3) show ?thesis by simp
  qed
  then have "find (\<lambda>client. wsUserName w client = sTo d) ?members = None"
    using assms(1) by (simp add: find_None_iff_absent)
  with assms(1,2) show ?thesis by (simp add: ws_signal_def Let_def truthy_def)
qed

lemma ws_signal_broadcast:
  assumes "\<not> truthy (sTo d)"
      and "map_of (wsRooms w) (key_of (wsRoomIdVar w ws)) = Some members"
  shows "ws_received (ws_signal w ws d) c
           = replicate (if c \<noteq> ws \<and> readyState w c = OPEN then count_list members c else 0)
               (WsSignal (wsNameVar w ws) (sSignal d))"
  using assms by (simp add: ws_signal_def Let_def ws_received_map count_list_filter)

text \<open>A join puts the socket into the Socket.IO room and its session into the room's list.\<close>

lemma on_join_member:
  "sid \<in> sioRooms (fst (on_join s sid d)) (jRoomId d)
   \<and> (\<exists>members. map_of (rooms (fst (on_join s sid d))) (jRoomId d) = Some members
         \<and> \<lparr>socketId = sid, userName = jName d, isHost = jIsHost d\<rparr> \<in> set members)"
  by (simp add: on_join_def Let_def AList.update_conv')

text \<open>
  C7, as the code has it. The relay of a signal message, in both servers. A message
  that names a non-empty target which no session of the sender's room carries as its
  name changes nothing and reaches no one: the Socket.IO handler returns the store with
  no emit at all (so nothing goes back to the sender either), the WebSocket handler
  sends nothing. A message whose \<open>to\<close> is missing or empty is relayed as
  \<open>signal {from: the sender's name, signal: the signal as sent}\<close>. In the Socket.IO
  server each socket joined to the room \<open>r\<close> of the sender, the sender apart, is sent
  exactly that one message, and no other socket is sent anything. In the WebSocket
  server a connection other than the sender's that is open is sent the message once for
  each entry it has in the room's list (once, if it joined once); the sender and the
  connections that are not open are sent nothing.
\<close>

theorem signal_relay:
  "(sTo d = Some t \<and> t \<noteq> [] \<and>
      (\<forall>members. map_of (rooms s) (key_of (roomIdVar (closure s sid))) = Some members
         \<longrightarrow> t \<notin> userName ` set members)
      \<longrightarrow> on_signal s sid d = (s, []))
   \<and> (\<not> truthy (sTo d) \<and> roomIdVar (closure s sid) = Some r
      \<longrightarrow> fst (on_signal s sid d) = s
          \<and> (\<forall>other. delivered (sioRooms s) (snd (on_signal s sid d)) other
                       = (if other \<in> sioRooms s r \<and> other \<noteq> sid
                          then [Signal (userNameVar (closure s sid)) (sSignal d)] else [])))
   \<and> (sTo d = Some t \<and> t \<noteq> [] \<and>
      (\<forall>members. map_of (wsRooms w) (key_of (wsRoomIdVar w ws)) = Some members
         \<longrightarrow> (\<forall>c\<in>set members. wsUserName w c \<noteq> Some t))
      \<longrightarrow> ws_signal w ws d = [])
   \<and> (\<not> truthy (sTo d) \<and> map_of (wsRooms w) (key_of (wsRoomIdVar w ws)) = Some cs
      \<longrightarrow> (\<forall>c. ws_received (ws_signal w ws d) c
                  = replicate (if c \<noteq> ws \<and> readyState w c = OPEN then count_list cs c else 0)
                      (WsSignal (wsNameVar w ws) (sSignal d))))"
proof -
  have a: "sTo d = Some t \<and> t \<noteq> [] \<and>
      (\<forall>members. map_of (rooms s) (key_of (roomIdVar (closure s sid))) = Some members
         \<longrightarrow> t \<notin> userName ` set members)
      \<longrightarrow> on_signal s sid d = (s, [])"
    using on_signal_absent by blast
  have b: "\<not> truthy (sTo d) \<and> roomIdVar (closure s sid) = Some r
      \<longrightarrow> fst (on_signal s sid d) = s
          \<and> (\<forall>other. delivered (sioRooms s) (snd (on_signal s sid d)) other
                       = (if other \<in> sioRooms s r \<and> other \<noteq> sid
                          then [Signal (userNameVar (closure s sid)) (sSignal d)] else []))"
    by (simp add: on_signal_broadcast delivered_broadcast)
  have c: "sTo d = Some t \<and> t \<noteq> [] \<and>
      (\<forall>members. map_of (wsRooms w) (key_of (wsRoomIdVar w ws)) = Some members
         \<longrightarrow> (\<forall>c\<in>set members. wsUserName w c \<noteq> Some t))
      \<longrightarrow> ws_signal w ws d = []"
    using ws_signal_absent by blast
  have d: "\<not> truthy (sTo d) \<and> map_of (wsRooms w) (key_of (wsRoomIdVar w ws)) = Some cs
      \<longrightarrow> (\<forall>c. ws_received (ws_signal w ws d) c
                  = replicate (if c \<noteq> ws \<and> readyState w c = OPEN then count_list cs c else 0)
                      (WsSignal (wsNameVar w ws) (sSignal d)))"
    using ws_signal_broadcast by blast
  from a b c d show ?thesis by blast
qed

theorem signal_relay_witness:
  "on_signal two_guests ''s1'' targeted = (two_guests, [])
   \<and> fst (on_signal two_guests ''s1'' broadcast) = two_guests
   \<and> delivered (sioRooms two_guests) (snd (on_signal two_guests ''s1'' broadcast)) ''s2''
       = [Signal (Some ''alice'') ''offer'']
   \<and> delivered (sioRooms two_guests) (snd (on_signal two_guests ''s1'' broadcast)) ''s1'' = []
   \<and> ws_signal ws_room 1 targeted = []
   \<and> ws_received (ws_signal ws_room 1 broadcast) 2 = [WsSignal (Some ''alice'') ''offer'']
   \<and> ws_received (ws_signal ws_room 1 broadcast) 3 = [WsSignal (Some ''alice'') ''offer'']
   \<and> ws_received (ws_signal ws_room 1 broadcast) 1 = []"
  using signal_relay [of targeted "''zoe''" two_guests "''s1''" "''r1''" ws_room 1 "[1, 2, 3]"]
        signal_relay [of broadcast "''zoe''" two_guests "''s1''" "''r1''" ws_room 1 "[1, 2, 3]"]
  by (simp add: two_guests_def targeted_def broadcast_def truthy_def key_of_def ws_room_def)

lemma ws_rejoined_eval:
  "wsRooms ws_rejoined = [(''r1'', [1, 2, 2])]"
  "wsRoomIdVar ws_rejoined (Suc 0) = Some ''r1''"
  "wsNameVar ws_rejoined (Suc 0) = Some ''alice''"
  "readyState ws_rejoined = (\<lambda>c. OPEN)"
  by (simp_all add: ws_rejoined_def ws_join_def ws_empty_def Let_def r1_no_proto_key)

text \<open>
  C7, as the claim has it, fails in three ways. In the WebSocket server a connection
  that has joined the room twice is in the list twice, and a signal without target is
  sent to it twice; a connection of the room that is closing is sent nothing. In the
  Socket.IO server a signal whose \<open>to\<close> is the empty string, a name that no session of
  the room carries, is not dropped: it is sent to the room.
\<close>

theorem signal_relay_exceptions:
  "wsRooms ws_rejoined = [(''r1'', [1, 2, 2])]
   \<and> ws_received (ws_signal ws_rejoined 1 broadcast) 2
       = [WsSignal (Some ''alice'') ''offer'', WsSignal (Some ''alice'') ''offer'']
   \<and> ws_received (ws_signal (ws_room\<lparr>readyState := (\<lambda>c. if c = 3 then CLOSING else OPEN)\<rparr>) 1 broadcast) 3
       = []
   \<and> [] \<notin> userName ` set (the (map_of (rooms two_guests) ''r1''))
   \<and> delivered (sioRooms two_guests) (snd (on_signal two_guests ''s1'' empty_target)) ''s2''
       = [Signal (Some ''alice'') ''offer'']"
  by (simp add: ws_rejoined_eval ws_signal_def ws_received_def broadcast_def empty_target_def
      truthy_def key_of_def Let_def ws_room_def two_guests_def on_signal_def delivered_def
      recipients_def)

section \<open>Disconnect of the host\<close>


lemma closeActiveStreams_sioRooms [simp]: "sioRooms (closeActiveStreams s k) = sioRooms s"
  by (simp add: closeActiveStreams_def split: option.splits)

lemma closeActiveStreams_left:
  "map_of (activeStreams (closeActiveStreams s k)) k = None
   \<or> map_of (activeStreams (closeActiveStreams s k)) k = Some {}"
  by (cases "map_of (activeStreams s) k") (auto simp add: closeActiveStreams_def AList.delete_conv')

lemma unlink_caught_fields [simp]:
  "videoStates (case unlinkSync s p of None \<Rightarrow> s | Some u \<Rightarrow> u) = videoStates s"
  "activeStreams (case unlinkSync s p of None \<Rightarrow> s | Some u \<Rightarrow> u) = activeStreams s"
  "destroyed (case unlinkSync s p of None \<Rightarrow> s | Some u \<Rightarrow> u) = destroyed s"
  "rooms (case unlinkSync s p of None \<Rightarrow> s | Some u \<Rightarrow> u) = rooms s"
  "micStates (case unlinkSync s p of None \<Rightarrow> s | Some u \<Rightarrow> u) = micStates s"
  "sioRooms (case unlinkSync s p of None \<Rightarrow> s | Some u \<Rightarrow> u) = sioRooms s"
  by (simp_all add: unlinkSync_def split: option.splits)





lemma received_timer [simp]: "received sio P [CleanupOrphanedVideos delay] t = 0"
  by (simp add: received_def delivered_def)

lemma received_nil [simp]: "received sio P [] t = 0"
  by (simp add: received_def delivered_def)

lemma leave_all_fields [simp]:
  "closure (leave_all s sid) = closure s" "videoStates (leave_all s sid) = videoStates s"
  "rooms (leave_all s sid) = rooms s" "micStates (leave_all s sid) = micStates s"
  "activeStreams (leave_all s sid) = activeStreams s" "destroyed (leave_all s sid) = destroyed s"
  "sioRooms (leave_all s sid) = (\<lambda>room. sioRooms s room - {sid})"
  by (simp_all add: leave_all_def)

lemma remove_client_fields [simp]:
  "videoStates (remove_client s k name remaining) = videoStates s"
  "activeStreams (remove_client s k name remaining) = activeStreams s"
  "destroyed (remove_client s k name remaining) = destroyed s"
  "sioRooms (remove_client s k name remaining) = sioRooms s"
  by (simp_all add: remove_client_def Let_def split: option.splits)





section \<open>The last session leaves\<close>

lemma unlink_fields:
  "unlinkSync s p = Some u \<Longrightarrow>
     rooms u = rooms s \<and> micStates u = micStates s \<and> videoStates u = videoStates s
     \<and> activeStreams u = activeStreams s"
  by (auto simp add: unlinkSync_def split: option.splits if_splits)

lemma room_emptied_clears:
  obtains s' out threw where "room_emptied s k = (s', out, threw)"
    and "map_of (rooms s') k = None" and "map_of (micStates s') k = None"
    and "\<not> threw \<Longrightarrow> map_of (videoStates s') k = None"
    and "\<not> threw \<Longrightarrow> map_of (activeStreams s') k = None \<or> map_of (activeStreams s') k = Some {}"
proof -
  define s1 where "s1 = s\<lparr>rooms := AList.delete k (rooms s)\<rparr>"
  define s2 where "s2 = (case map_of (micStates s1) k of
              None \<Rightarrow> s1
            | Some m \<Rightarrow> s1\<lparr>micStates := AList.delete k (micStates s1)\<rparr>)"
  have r2: "map_of (rooms s2) k = None" and m2: "map_of (micStates s2) k = None"
    by (simp_all add: s2_def s1_def AList.delete_conv' split: option.splits)
  have unfold: "room_emptied s k =
      (case map_of (videoStates s2) k of
           None \<Rightarrow> (closeActiveStreams s2 k, [CleanupOrphanedVideos 2000], False)
         | Some vs \<Rightarrow>
             if existsSync s2 (filePath vs) then
               (case unlinkSync s2 (filePath vs) of
                  None \<Rightarrow> (s2, [], True)
                | Some s3 \<Rightarrow>
                    (closeActiveStreams (s3\<lparr>videoStates := AList.delete k (videoStates s3)\<rparr>) k,
                     [CleanupOrphanedVideos 2000], False))
             else
               (closeActiveStreams (s2\<lparr>videoStates := AList.delete k (videoStates s2)\<rparr>) k,
                [CleanupOrphanedVideos 2000], False))"
    unfolding room_emptied_def Let_def s2_def s1_def by (rule refl)
  show thesis
  proof (cases "map_of (videoStates s2) k")
    case None
    show thesis
      by (rule that [of "closeActiveStreams s2 k" "[CleanupOrphanedVideos 2000]" False])
         (simp_all add: unfold None r2 m2 closeActiveStreams_left)
  next
    case (Some vs)
    show thesis
    proof (cases "existsSync s2 (filePath vs)")
      case False
      show thesis
        by (rule that [of "closeActiveStreams (s2\<lparr>videoStates := AList.delete k (videoStates s2)\<rparr>) k"
                "[CleanupOrphanedVideos 2000]" False])
           (simp_all add: unfold Some False r2 m2 closeActiveStreams_left AList.delete_conv')
    next
      case True
      show thesis
      proof (cases "unlinkSync s2 (filePath vs)")
        case None
        show thesis
          by (rule that [of s2 "[]" True]) (simp_all add: unfold Some True None r2 m2)
      next
        case (Some s3)
        from unlink_fields [OF Some] r2 m2
        have r3: "map_of (rooms s3) k = None" and m3: "map_of (micStates s3) k = None" by simp_all
        show thesis
          by (rule that [of "closeActiveStreams (s3\<lparr>videoStates := AList.delete k (videoStates s3)\<rparr>) k"
                "[CleanupOrphanedVideos 2000]" False])
             (simp_all add: unfold \<open>map_of (videoStates s2) k = Some vs\<close> True Some r3 m3
                closeActiveStreams_left AList.delete_conv')
      qed
    qed
  qed
qed

text \<open>
  What the handler does reach when the leaving socket holds every entry of the room's
  list: the entries of the room in \<open>rooms\<close> and \<open>micStates\<close> go; unless the unlink of
  the fallback throws, the entry in \<open>videoStates\<close> goes too, and \<open>activeStreams\<close>
  holds no stream for the room: no entry, or the empty set.
\<close>

lemma last_session_leaves:
  assumes room: "roomIdVar (closure s sid) = Some r"
      and members: "map_of (rooms s) r = Some members"
      and last: "\<forall>c\<in>set members. socketId c = sid"
  shows "case on_disconnect s sid of
           (s', out, threw) \<Rightarrow>
             map_of (rooms s') r = None \<and> map_of (micStates s') r = None
             \<and> (\<not> threw \<longrightarrow> map_of (videoStates s') r = None
                   \<and> (map_of (activeStreams s') r = None \<or> map_of (activeStreams s') r = Some {}))"
proof -
  have empty: "filter (\<lambda>client. socketId client \<noteq> sid) members = []"
    using last by (simp add: filter_empty_conv)
  define name where "name = userNameVar (closure s sid)"
  define s2 where "s2 = remove_client (leave_all s sid) r name []"
  define wasHost where "wasHost = (case map_of (videoStates s) r of None \<Rightarrow> False | Some vs \<Rightarrow> host vs = name)"
  define s3out where "s3out = (case map_of (videoStates s2) r of
                                 None \<Rightarrow> (s2, [])
                               | Some vs \<Rightarrow> if wasHost then host_left s2 sid (Some r) name vs else (s2, []))"
  have unfold: "on_disconnect s sid =
      (let (s4, out4, threw) = room_emptied (fst s3out) r
       in (s4, [Emit (ToRoomExcept (Some r) sid) (PeerLeft name)] @ snd s3out @ out4, threw))"
    using room members
    by (simp add: on_disconnect_def Let_def key_of_def empty name_def s2_def wasHost_def s3out_def
        split_def cong: option.case_cong if_cong)
  from room_emptied_clears [of "fst s3out" r]
  obtain s' out threw where "room_emptied (fst s3out) r = (s', out, threw)"
    and "map_of (rooms s') r = None" and "map_of (micStates s') r = None"
    and "\<not> threw \<Longrightarrow> map_of (videoStates s') r = None"
    and "\<not> threw \<Longrightarrow> map_of (activeStreams s') r = None \<or> map_of (activeStreams s') r = Some {}"
    by blast
  then show ?thesis by (simp add: unfold)
qed

lemma watched_server_streams: "activeStreams watched_server = [(''r1'', {})]"
  by (simp add: watched_server_def cleanupStream_def movie_get_def lone_guest_server_def whole_asset_def
      movie_state_def movie_file_def Let_def truthy_def add_stream_def register_stream_def
      r1_no_proto_key)

text \<open>
  C3. The room \<open>r1\<close> of \<open>watched_server\<close> has one session and an empty stream set
  (its only stream has ended). When that session disconnects, the entries of \<open>r1\<close> in
  \<open>rooms\<close>, \<open>micStates\<close> and \<open>videoStates\<close> go, and \<open>activeStreams\<close> still holds
  the empty set under \<open>r1\<close>: \<open>closeActiveStreams\<close> deletes the entry of a non-empty
  set only.
\<close>

theorem empty_stream_set_survives_room:
  "(case on_disconnect watched_server ''s2'' of
      (s', out, threw) \<Rightarrow>
        \<not> threw
        \<and> map_of (rooms s') ''r1'' = None
        \<and> map_of (micStates s') ''r1'' = None
        \<and> map_of (videoStates s') ''r1'' = None
        \<and> map_of (activeStreams s') ''r1'' = Some {})"
  by (simp add: watched_server_def cleanupStream_def movie_get_def lone_guest_server_def whole_asset_def
      movie_state_def movie_file_def Let_def truthy_def add_stream_def register_stream_def
      r1_no_proto_key on_disconnect_def leave_all_def remove_client_def room_emptied_def key_of_def existsSync_def
      unlinkSync_def closeActiveStreams_def)

section \<open>The periodic cleanup\<close>

lemma shouldDelete_iff:
  "shouldDelete states fileAge path \<longleftrightarrow>
     \<not> isInUse states path \<and> fileAge > (if states = [] then 10 * 60 * 1000 else 60 * 60 * 1000)"
  by (cases states) (auto simp add: shouldDelete_def isInUse_def)

lemma cleanup_file_videoStates [simp]: "videoStates (fst (cleanup_file now s path)) = videoStates s"
  by (simp add: cleanup_file_def Let_def split: option.splits)

lemma cleanup_file_other:
  "q \<noteq> path \<Longrightarrow> map_of (files (fst (cleanup_file now s path))) q = map_of (files s) q"
  by (simp add: cleanup_file_def Let_def split: option.splits)

lemma cleanup_file_tried:
  "snd (cleanup_file now s path) =
     (case map_of (files s) path of
        None \<Rightarrow> False
      | Some stat \<Rightarrow> shouldDelete (videoStates s) (now - mtime stat) path)"
  by (simp add: cleanup_file_def Let_def split: option.splits)

lemma periodic_cleanup_tried:
  "distinct paths \<Longrightarrow>
     snd (periodic_cleanup now s paths) =
       filter (\<lambda>path. case map_of (files s) path of
                         None \<Rightarrow> False
                       | Some stat \<Rightarrow> shouldDelete (videoStates s) (now - mtime stat) path) paths"
proof (induction paths arbitrary: s)
  case Nil
  then show ?case by simp
next
  case (Cons path paths)
  let ?s1 = "fst (cleanup_file now s path)"
  from Cons.prems have d: "distinct paths" and notin: "path \<notin> set paths" by simp_all
  have rest: "snd (periodic_cleanup now ?s1 paths) =
       filter (\<lambda>q. case map_of (files s) q of
                         None \<Rightarrow> False
                       | Some stat \<Rightarrow> shouldDelete (videoStates s) (now - mtime stat) q) paths"
    unfolding Cons.IH [OF d, of ?s1]
  proof (rule filter_cong [OF refl])
    fix q assume "q \<in> set paths"
    with notin have "q \<noteq> path" by blast
    then show "(case map_of (files ?s1) q of None \<Rightarrow> False
                | Some stat \<Rightarrow> shouldDelete (videoStates ?s1) (now - mtime stat) q)
             = (case map_of (files s) q of None \<Rightarrow> False
                | Some stat \<Rightarrow> shouldDelete (videoStates s) (now - mtime stat) q)"
      by (simp add: cleanup_file_other cong: option.case_cong)
  qed
  show ?case
    using rest cleanup_file_tried [of now s path]
    by (simp add: split_def Let_def)
qed

text \<open>
  C2, as the code has it. In one periodic pass over the uploads directory (no file
  listed twice), the files whose deletion is attempted are exactly those that no
  playback state references and whose age exceeds the threshold: ten minutes when no
  playback state exists at all (\<open>videoStates\<close> is empty), one hour otherwise. The rooms
  that have sessions play no part.
\<close>

theorem periodic_cleanup_attempts:
  assumes "distinct (readdir s)"
  shows "snd (periodic_cleanup now s (readdir s)) =
           filter (\<lambda>path. \<not> isInUse (videoStates s) path
                          \<and> now - mtime (the (map_of (files s) path))
                              > (if videoStates s = [] then 10 * 60 * 1000 else 60 * 60 * 1000))
             (readdir s)"
  unfolding periodic_cleanup_tried [OF assms]
proof (rule filter_cong [OF refl])
  fix path assume "path \<in> set (readdir s)"
  then have "map_of (files s) path \<noteq> None"
    by (simp add: readdir_def map_of_eq_None_iff)
  then obtain stat where "map_of (files s) path = Some stat"
    by blast
  then show "(case map_of (files s) path of None \<Rightarrow> False
              | Some stat \<Rightarrow> shouldDelete (videoStates s) (now - mtime stat) path)
           = (\<not> isInUse (videoStates s) path
                          \<and> now - mtime (the (map_of (files s) path))
                              > (if videoStates s = [] then 10 * 60 * 1000 else 60 * 60 * 1000))"
    by (simp add: shouldDelete_iff)
qed

text \<open>
  C2, as the claim has it, fails: in \<open>chat_server\<close> a room is active (it has two
  sessions), the file is twenty minutes old, which does not exceed the longer threshold,
  and the pass attempts its deletion all the same, because no playback state exists.
\<close>

theorem periodic_cleanup_ignores_rooms:
  "rooms chat_server \<noteq> []
   \<and> \<not> isInUse (videoStates chat_server) ''uploads/movie-r9-7.mp4''
   \<and> \<not> (1200000 - mtime old_file > 60 * 60 * 1000)
   \<and> snd (periodic_cleanup 1200000 chat_server (readdir chat_server)) = [''uploads/movie-r9-7.mp4'']"
  by (simp add: chat_server_def two_guests_def readdir_def cleanup_file_def shouldDelete_def isInUse_def old_file_def Let_def)

theorem periodic_cleanup_attempts_witness:
  "snd (periodic_cleanup 1200000 chat_server (readdir chat_server)) = [''uploads/movie-r9-7.mp4'']
   \<and> snd (periodic_cleanup 1200000 uploaded_server (readdir uploaded_server)) = []
   \<and> snd (periodic_cleanup 1200000 (uploaded_server\<lparr>files := (''uploads/movie-r9-7.mp4'', old_file) # files uploaded_server\<rparr>)
             (readdir (uploaded_server\<lparr>files := (''uploads/movie-r9-7.mp4'', old_file) # files uploaded_server\<rparr>))) = []"
  using periodic_cleanup_attempts [of chat_server 1200000]
        periodic_cleanup_attempts [of uploaded_server 1200000]
        periodic_cleanup_attempts [of "uploaded_server\<lparr>files := (''uploads/movie-r9-7.mp4'', old_file) # files uploaded_server\<rparr>" 1200000]
  by (simp add: chat_server_def two_guests_def readdir_def isInUse_def old_file_def uploaded_server_def empty_server_def movie_state_def movie_file_def)

section \<open>Byte ranges\<close>

lemma small_digit: "d < 10 \<Longrightarrow> d \<in> {0, 1, 2, 3, 4, 5, 6, 7, 8, 9 :: nat}"
  by auto

lemma digit_char_val: "d < 10 \<Longrightarrow> digit_val (digit_char d) = d"
  by (drule small_digit) (auto simp add: digit_val_def digit_char_def)

lemma digit_char_is_digit: "d < 10 \<Longrightarrow> is_digit (digit_char d)"
  by (drule small_digit) (auto simp add: is_digit_def digit_char_def)

lemma show_nat_nonempty: "show_nat n \<noteq> []"
  by (subst show_nat.simps) simp

lemma show_nat_digits: "c \<in> set (show_nat n) \<Longrightarrow> is_digit c"
proof (induction n arbitrary: c rule: show_nat.induct)
  case (1 n)
  show ?case
  proof (cases "n < 10")
    case True
    with "1.prems" show ?thesis
      by (subst (asm) show_nat.simps) (simp add: digit_char_is_digit)
  next
    case False
    from "1.prems" have "c \<in> set (show_nat (n div 10)) \<or> c = digit_char (n mod 10)"
      using False by (subst (asm) show_nat.simps) auto
    then show ?thesis
      using "1.IH" [OF False] by (auto simp add: digit_char_is_digit)
  qed
qed

lemma digits_val_snoc: "digits_val (ds @ [c]) = 10 * digits_val ds + digit_val c"
  by (simp add: digits_val_def)

lemma digits_val_show_nat: "digits_val (show_nat n) = n"
proof (induction n rule: show_nat.induct)
  case (1 n)
  show ?case
  proof (cases "n < 10")
    case True
    then show ?thesis
      by (subst show_nat.simps) (simp add: digits_val_def digit_char_val)
  next
    case False
    then have "digits_val (show_nat n) = 10 * digits_val (show_nat (n div 10)) + digit_val (digit_char (n mod 10))"
      by (subst show_nat.simps) (simp add: digits_val_snoc)
    also have "\<dots> = 10 * (n div 10) + n mod 10"
      using "1.IH" [OF False] by (simp add: digit_char_val)
    finally show ?thesis by simp
  qed
qed

lemma is_digit_not_ws: "is_digit c \<Longrightarrow> \<not> is_ws c"
  by (auto simp add: is_digit_def is_ws_def)

lemma is_digit_not_sign: "is_digit c \<Longrightarrow> c \<noteq> CHR ''-'' \<and> c \<noteq> CHR ''+''"
  by (auto simp add: is_digit_def)

lemma js_number_exact: "0 \<le> i \<Longrightarrow> i < 2 ^ 53 \<Longrightarrow> js_number i = Num i"
  by (simp add: js_number_def)

lemma parseInt_digits:
  assumes "ds \<noteq> []" and "\<forall>c\<in>set ds. is_digit c"
  shows "parseInt ds = js_number (int (digits_val ds))"
proof -
  from assms obtain c r where ds: "ds = c # r" by (cases ds) auto
  with assms(2) have c: "is_digit c" by simp
  have "dropWhile is_ws ds = ds"
    using c by (simp add: ds is_digit_not_ws)
  moreover have "takeWhile is_digit ds = ds"
    using assms(2) by (simp add: takeWhile_eq_all_conv)
  ultimately show ?thesis
    using is_digit_not_sign [OF c] assms(1) by (simp add: parseInt_def Let_def ds)
qed

lemma parseInt_show_nat: "n < 2 ^ 53 \<Longrightarrow> parseInt (show_nat n) = Num (int n)"
  using parseInt_digits [of "show_nat n"] show_nat_nonempty show_nat_digits
    js_number_exact [of "int n"]
  by (simp add: digits_val_show_nat)

lemma replace_first_prefix: "pat \<noteq> [] \<Longrightarrow> replace_first pat (pat @ rest) = rest"
  by (cases pat) simp_all

lemma split_on_absent: "d \<notin> set xs \<Longrightarrow> split_on d xs = [xs]"
  by (induction xs) auto

lemma split_on_first: "d \<notin> set xs \<Longrightarrow> split_on d (xs @ d # ys) = xs # split_on d ys"
  by (induction xs) auto

lemma show_nat_no_dash: "CHR ''-'' \<notin> set (show_nat n)"
  using show_nat_digits is_digit_not_sign by blast

lemma range_parts:
  "split_on CHR ''-'' (replace_first ''bytes='' (''bytes='' @ show_nat a @ ''-'' @ show_nat b))
     = [show_nat a, show_nat b]"
  using replace_first_prefix [of "''bytes=''" "show_nat a @ ''-'' @ show_nat b"]
  by (simp add: split_on_first show_nat_no_dash split_on_absent)

lemma js_string_nat: "js_string (Num (int n)) = show_nat n"
  by (simp add: js_string_def)


lemma show_nat_examples:
  "show_nat 0 = ''0''" "show_nat 100 = ''100''" "show_nat 199 = ''199''"
  "show_nat 1000 = ''1000''" "show_nat 5000 = ''5000''"
  by (simp_all add: show_nat.simps digit_char_def)

lemma movie_get_range:
  assumes video: "map_of (videoStates s) (paramRoomId req) = Some vs"
      and path: "filePath vs \<noteq> []"
      and stat: "map_of (files s) (filePath vs) = Some stat"
      and range: "rangeHeader req = Some (''bytes='' @ show_nat a @ ''-'' @ show_nat b)"
      and le: "a \<le> b"
      and safe: "b < 2 ^ 53"
      and own: "\<not> proto_key (paramRoomId req)"
  shows "movie_get mime s req =
           (add_stream (s\<lparr>nextStream := Suc (nextStream s)\<rparr>) (paramRoomId req) (nextStream s),
            [ResHeader ''Access-Control-Allow-Origin'' ''http://localhost:3000'',
             ResHeader ''Access-Control-Allow-Credentials'' ''true'',
             CreateReadStream (nextStream s) (filePath vs) (Some (Num (int a), Num (int b))),
             Register (paramRoomId req) (nextStream s),
             WriteHead 206
               (stream_head mime (filePath vs) req
                  (Some (''bytes '' @ show_nat a @ ''-'' @ show_nat b @ ''/'' @ js_string (Num (fsize stat))))
                  (Num (int b - int a + 1))),
             OnCleanup (nextStream s),
             Pipe (nextStream s)])"
proof -
  from le safe have safe_a: "a < 2 ^ 53" by simp
  have parsed: "parse_range (the (rangeHeader req)) (fsize stat) = (Num (int a), Num (int b))"
    using range_parts [of a b]
    by (simp add: range parse_range_def Let_def parseInt_show_nat [OF safe] parseInt_show_nat [OF safe_a]
        show_nat_nonempty del: replace_first.simps split_on.simps)
  have truthy: "truthy (rangeHeader req)"
    by (simp add: range truthy_def)
  have "int a < 2 ^ 53" and "int b < 2 ^ 53"
    using safe safe_a by simp_all
  then have valid: "valid_stream_range (Num (int a)) (Num (int b))"
    using le by (simp add: valid_stream_range_def)
  have chunk: "js_chunksize (Num (int a)) (Num (int b)) = Num (int b - int a + 1)"
    by (simp add: js_chunksize_def)
  have registered: "register_stream (s\<lparr>nextStream := Suc (nextStream s)\<rparr>) (paramRoomId req) (nextStream s)
      = Some (add_stream (s\<lparr>nextStream := Suc (nextStream s)\<rparr>) (paramRoomId req) (nextStream s))"
    using own by (simp add: register_stream_def)
  show ?thesis
    using video path stat
    by (simp add: movie_get_def Let_def parsed truthy valid chunk js_string_nat registered)
qed

lemma add_stream_registered:
  "\<exists>streams. map_of (activeStreams (add_stream s roomId h)) roomId = Some streams \<and> h \<in> streams"
  by (simp add: add_stream_def AList.update_conv')

text \<open>
  C1, as the code has it. A request \<open>bytes=a-b\<close> with \<open>a \<le> b < 2 ^ 53\<close> on a room
  whose asset exists and whose id is not a property name of \<open>Object.prototype\<close> is
  answered with status 206, and \<open>b\<close> is used as it was sent, whatever the size of the
  asset: the declared range is \<open>bytes a-b/size\<close> and the declared length is
  \<open>b - a + 1\<close>. The read stream is created with the same bounds and is added to the
  room's set of \<open>activeStreams\<close> before the head is written and before \<open>pipe\<close>, the
  call that starts the delivery of bytes.
\<close>

theorem range_request_end_as_sent:
  assumes "map_of (videoStates s) (paramRoomId req) = Some vs"
      and "filePath vs \<noteq> []"
      and "map_of (files s) (filePath vs) = Some stat"
      and "rangeHeader req = Some (''bytes='' @ show_nat a @ ''-'' @ show_nat b)"
      and "a \<le> b" and "b < 2 ^ 53"
      and "\<not> proto_key (paramRoomId req)"
  shows "snd (movie_get mime s req) =
            [ResHeader ''Access-Control-Allow-Origin'' ''http://localhost:3000'',
             ResHeader ''Access-Control-Allow-Credentials'' ''true'',
             CreateReadStream (nextStream s) (filePath vs) (Some (Num (int a), Num (int b))),
             Register (paramRoomId req) (nextStream s),
             WriteHead 206
               (stream_head mime (filePath vs) req
                  (Some (''bytes '' @ show_nat a @ ''-'' @ show_nat b @ ''/'' @ js_string (Num (fsize stat))))
                  (Num (int b - int a + 1))),
             OnCleanup (nextStream s),
             Pipe (nextStream s)]
         \<and> (\<exists>streams. map_of (activeStreams (fst (movie_get mime s req))) (paramRoomId req) = Some streams
                        \<and> nextStream s \<in> streams)"
  using movie_get_range [OF assms, of mime] add_stream_registered by simp

theorem range_request_end_as_sent_witness:
  "snd (movie_get mp4_only uploaded_server (range_request ''bytes=0-5000'')) =
            [ResHeader ''Access-Control-Allow-Origin'' ''http://localhost:3000'',
             ResHeader ''Access-Control-Allow-Credentials'' ''true'',
             CreateReadStream 0 ''uploads/movie-r1-1.mp4'' (Some (Num 0, Num 5000)),
             Register ''r1'' 0,
             WriteHead 206
               (stream_head mp4_only ''uploads/movie-r1-1.mp4'' (range_request ''bytes=0-5000'')
                  (Some ''bytes 0-5000/1000'') (Num 5001)),
             OnCleanup 0,
             Pipe 0]
   \<and> (\<exists>streams. map_of (activeStreams (fst (movie_get mp4_only uploaded_server (range_request ''bytes=0-5000'')))) ''r1'' = Some streams
                        \<and> 0 \<in> streams)"
  using range_request_end_as_sent [of uploaded_server "range_request ''bytes=0-5000''" movie_state movie_file 0 5000 mp4_only]
  by (simp add: uploaded_server_def empty_server_def movie_state_def movie_file_def range_request_def
      show_nat_examples js_string_def r1_no_proto_key)

text \<open>
  C1, as the claim has it, fails: for \<open>bytes=0-5000\<close> on the asset of 1000 bytes the end
  is greater than \<open>size - 1\<close>, and the response declares \<open>bytes 0-5000/1000\<close> and a
  length of 5001, not the clamped \<open>bytes 0-999/1000\<close> and 1000.
\<close>

theorem range_request_end_beyond_asset:
  "fsize movie_file - 1 < 5000
   \<and> declared (snd (movie_get mp4_only uploaded_server (range_request ''bytes=0-5000'')))
       = Some (206, Some ''bytes 0-5000/1000'', Num 5001)
   \<and> declared (snd (movie_get mp4_only uploaded_server (range_request ''bytes=0-5000'')))
       \<noteq> Some (206, Some ''bytes 0-999/1000'', Num 1000)"
  using movie_get_range [of uploaded_server "range_request ''bytes=0-5000''" movie_state movie_file 0 5000 mp4_only]
  by (simp add: uploaded_server_def empty_server_def movie_state_def movie_file_def range_request_def
      show_nat_examples js_string_def declared_def stream_head_def r1_no_proto_key)

text \<open>
  What holds of \<open>Range: bytes=100-199\<close> on an asset of exactly 1000 bytes in a room
  whose id is not a property name of \<open>Object.prototype\<close>: status 206, the declared
  range \<open>bytes 100-199/1000\<close> and the declared length 100.
\<close>

lemma range_100_199_ordinary_room:
  assumes "map_of (videoStates s) (paramRoomId req) = Some vs"
      and "filePath vs \<noteq> []"
      and "map_of (files s) (filePath vs) = Some stat"
      and "fsize stat = 1000"
      and "rangeHeader req = Some ''bytes=100-199''"
      and "\<not> proto_key (paramRoomId req)"
  shows "declared (snd (movie_get mime s req)) = Some (206, Some ''bytes 100-199/1000'', Num 100)"
proof -
  have "rangeHeader req = Some (''bytes='' @ show_nat 100 @ ''-'' @ show_nat 199)"
    by (simp add: assms(5) show_nat_examples)
  from movie_get_range [OF assms(1-3) this _ _ assms(6), of mime]
  show ?thesis
    by (simp add: declared_def stream_head_def show_nat_examples assms(4) js_string_def)
qed

lemma range_100_199_room_r1:
  "declared (snd (movie_get mp4_only uploaded_server (range_request ''bytes=100-199'')))
     = Some (206, Some ''bytes 100-199/1000'', Num 100)"
  using range_100_199_ordinary_room [of uploaded_server "range_request ''bytes=100-199''" movie_state movie_file mp4_only]
  by (simp add: uploaded_server_def empty_server_def movie_state_def movie_file_def range_request_def
      r1_no_proto_key)

lemma constructor_range_parsed:
  "parse_range ''bytes=100-199'' 1000 = (Num 100, Num 199)"
  using range_parts [of 100 199] parseInt_show_nat [of 100] parseInt_show_nat [of 199]
  by (simp add: parse_range_def Let_def show_nat_examples del: replace_first.simps split_on.simps)

text \<open>
  C8. The claim fails for a room whose id is a property name of \<open>Object.prototype\<close>.
  After an upload for the room id \<open>constructor\<close> (an asset of exactly 1000 bytes), the
  request \<open>Range: bytes=100-199\<close> for that room creates the read stream and then
  throws at \<open>activeStreams[roomId].add(file)\<close>: the answer is status 500, no head with
  a range is written, and the stream is registered nowhere.
\<close>

theorem range_100_199_constructor_room:
  "map_of (videoStates constructor_server) (paramRoomId constructor_request) = Some constructor_state
   \<and> map_of (files constructor_server) (filePath constructor_state) = Some movie_file
   \<and> fsize movie_file = 1000
   \<and> rangeHeader constructor_request = Some ''bytes=100-199''
   \<and> movie_get mp4_only constructor_server constructor_request =
       (constructor_server\<lparr>nextStream := 1\<rparr>,
        [ResHeader ''Access-Control-Allow-Origin'' ''http://localhost:3000'',
         ResHeader ''Access-Control-Allow-Credentials'' ''true'',
         CreateReadStream 0 ''uploads/movie-constructor-1.mp4'' (Some (Num 100, Num 199)),
         Json 500 ''TypeError''])
   \<and> declared (snd (movie_get mp4_only constructor_server constructor_request)) = None
   \<and> activeStreams (fst (movie_get mp4_only constructor_server constructor_request)) = []"
  by (simp add: movie_get_def Let_def constructor_server_def constructor_request_def empty_server_def
      constructor_state_def movie_state_def movie_file_def truthy_def constructor_range_parsed valid_stream_range_def
      register_stream_def proto_key_def declared_def)

end
